theory Spec2Isabelle
  imports Complex_Main "HOL-Library.Word"
begin

unbundle bit_operations_syntax

section \<open>Basic types\<close>

text \<open>
  \<open>primitive.ObjectID\<close> is a 12-byte array; a value read from a path parameter or from a
  token is only an ObjectID after \<open>ObjectIDFromHex\<close> has accepted 24 hex digits.
  \<open>time.Time\<close> is an instant, counted here in nanoseconds since the Unix epoch;
  \<open>*time.Time\<close> is an optional instant. \<open>float64\<close> is idealised as \<open>real\<close>: a quotient
  that Go rounds to the nearest \<open>float64\<close> is exact here.
\<close>

type_synonym ObjectID = "8 word list"
type_synonym Time = int

definition zeroTime :: Time where
  \<comment> \<open>the zero \<open>time.Time\<close>, January 1, year 1, 00:00:00 UTC\<close>
  "zeroTime = - 62135596800 * 1000000000"

definition IsZero :: "Time \<Rightarrow> bool" where
  "IsZero t = (t = zeroTime)"

subsection \<open>encoding/hex and ObjectID\<close>

definition hextable :: string where
  "hextable = ''0123456789abcdef''"

text \<open>\<open>hex.Encode\<close>: two digits per byte, high nibble first.\<close>

fun hex_Encode :: "8 word list \<Rightarrow> string" where
  "hex_Encode [] = []"
| "hex_Encode (v # vs) =
     hextable ! unat (drop_bit 4 v) # hextable ! unat (v AND 0x0f) # hex_Encode vs"

definition fromHexChar :: "char \<Rightarrow> 8 word option" where
  "fromHexChar c =
     (let n = (of_char c :: nat) in
      if 48 \<le> n \<and> n \<le> 57 then Some (of_nat (n - 48))
      else if 97 \<le> n \<and> n \<le> 102 then Some (of_nat (n - 97 + 10))
      else if 65 \<le> n \<and> n \<le> 70 then Some (of_nat (n - 65 + 10))
      else None)"

text \<open>\<open>hex.Decode\<close>: \<open>None\<close> stands for \<open>InvalidByteError\<close> and \<open>ErrLength\<close>.\<close>

fun hex_Decode :: "string \<Rightarrow> 8 word list option" where
  "hex_Decode [] = Some []"
| "hex_Decode [c] = None"
| "hex_Decode (p # q # rest) =
     (case fromHexChar p of
        None \<Rightarrow> None
      | Some a \<Rightarrow>
          (case fromHexChar q of
             None \<Rightarrow> None
           | Some b \<Rightarrow>
               (case hex_Decode rest of
                  None \<Rightarrow> None
                | Some bs \<Rightarrow> Some ((push_bit 4 a OR b) # bs))))"

definition Hex :: "ObjectID \<Rightarrow> string" where
  "Hex oid = hex_Encode oid"

definition ObjectIDFromHex :: "string \<Rightarrow> ObjectID option" where
  "ObjectIDFromHex s = (if length s \<noteq> 24 then None else hex_Decode s)"

subsection \<open>strings.Split with a one-byte separator\<close>

text \<open>
  \<open>genSplit\<close> cuts at every occurrence of the separator; \<open>cur\<close> is the piece read so far.
  The result always has one more element than the string has separators.
\<close>

fun genSplit :: "char \<Rightarrow> string \<Rightarrow> string \<Rightarrow> string list" where
  "genSplit sep [] cur = [cur]"
| "genSplit sep (x # xs) cur =
     (if x = sep then cur # genSplit sep xs [] else genSplit sep xs (cur @ [x]))"

definition strings_Split :: "string \<Rightarrow> char \<Rightarrow> string list" where
  "strings_Split s sep = genSplit sep s []"

section \<open>models/goal.go\<close>

record SubTask =
  st_ID :: ObjectID
  st_Title :: string
  st_Description :: string
  st_Completed :: bool
  st_DueDate :: "Time option"
  st_CreatedAt :: Time
  st_UpdatedAt :: Time

record Goal =
  ID :: ObjectID
  UserID :: ObjectID
  Title :: string
  Description :: string
  SubTasks :: "SubTask list"
  StartDate :: Time
  EndDate :: "Time option"
  Completed :: bool
  Progress :: real
  CreatedAt :: Time
  UpdatedAt :: Time

text \<open>The counting loop of \<open>CalculateProgress\<close>.\<close>

fun count_completed :: "SubTask list \<Rightarrow> nat \<Rightarrow> nat" where
  "count_completed [] completedCount = completedCount"
| "count_completed (task # rest) completedCount =
     count_completed rest (if st_Completed task then completedCount + 1 else completedCount)"

definition CalculateProgress :: "Goal \<Rightarrow> Goal" where
  "CalculateProgress g =
     (if length (SubTasks g) = 0 then g\<lparr>Progress := 0\<rparr>
      else g\<lparr>Progress := real (count_completed (SubTasks g) 0) / real (length (SubTasks g)) * 100\<rparr>)"

text \<open>
  The loop of \<open>IsCompleted\<close>: it returns at the first subtask that is not completed, after
  writing \<open>false\<close> to the goal; when it runs to the end it writes \<open>true\<close>.
\<close>

fun IsCompleted_loop :: "SubTask list \<Rightarrow> Goal \<Rightarrow> bool \<times> Goal" where
  "IsCompleted_loop [] g = (True, g\<lparr>Completed := True\<rparr>)"
| "IsCompleted_loop (task # rest) g =
     (if \<not> st_Completed task then (False, g\<lparr>Completed := False\<rparr>)
      else IsCompleted_loop rest g)"

text \<open>\<open>IsCompleted\<close> returns its verdict and the goal as the method leaves it.\<close>

definition IsCompleted :: "Goal \<Rightarrow> bool \<times> Goal" where
  "IsCompleted g =
     (if length (SubTasks g) = 0 then (False, g)
      else IsCompleted_loop (SubTasks g) g)"

text \<open>
  The Progress Engine's \<open>Recompute\<close>: both methods run on the goal, one after the other.
\<close>

definition Recompute :: "Goal \<Rightarrow> Goal" where
  "Recompute g = snd (IsCompleted (CalculateProgress g))"

section \<open>models/user.go\<close>

record User =
  u_ID :: ObjectID
  u_Username :: string
  u_Email :: string
  u_Password :: string
  u_FirstName :: string
  u_LastName :: string
  u_CreatedAt :: Time
  u_UpdatedAt :: Time

record UserResponse =
  r_ID :: ObjectID
  r_Username :: string
  r_Email :: string
  r_FirstName :: string
  r_LastName :: string
  r_CreatedAt :: Time

definition ToResponse :: "User \<Rightarrow> UserResponse" where
  "ToResponse u =
     \<lparr> r_ID = u_ID u, r_Username = u_Username u, r_Email = u_Email u,
       r_FirstName = u_FirstName u, r_LastName = u_LastName u, r_CreatedAt = u_CreatedAt u \<rparr>"

text \<open>
  \<open>golang.org/x/crypto/bcrypt\<close> is a parameter of the model: \<open>GenerateFromPassword\<close>
  gives the hash of a password at a cost, or \<open>None\<close> for its error;
  \<open>CompareHashAndPassword\<close> says whether a hash and a password match (\<open>True\<close> is the
  \<open>nil\<close> error).
\<close>

record bcrypt_lib =
  GenerateFromPassword :: "string \<Rightarrow> nat \<Rightarrow> string option"
  CompareHashAndPassword :: "string \<Rightarrow> string \<Rightarrow> bool"

definition DefaultCost :: nat where
  "DefaultCost = 10"

definition HashPassword :: "bcrypt_lib \<Rightarrow> User \<Rightarrow> User option" where
  "HashPassword bc u =
     (case GenerateFromPassword bc (u_Password u) DefaultCost of
        None \<Rightarrow> None
      | Some hashedPassword \<Rightarrow> Some (u\<lparr>u_Password := hashedPassword\<rparr>))"

definition ComparePassword :: "bcrypt_lib \<Rightarrow> User \<Rightarrow> string \<Rightarrow> bool" where
  "ComparePassword bc u password = CompareHashAndPassword bc (u_Password u) password"

section \<open>The document store\<close>

text \<open>
  A \<open>mongo.Collection\<close> is the list of its documents, in insertion order, and a flag that
  stands for every failure of the driver (\<open>unreachable\<close>: each call returns an error that
  is not \<open>ErrNoDocuments\<close>). A filter is a predicate on documents. The collection has the
  unique index on \<open>_id\<close> that MongoDB always keeps.
\<close>

record 'd Collection =
  docs :: "'d list"
  unreachable :: bool

text \<open>
  A \<open>time.Time\<close> is written as a BSON datetime, a whole number of milliseconds
  (\<open>t.Unix() * 1000 + t.Nanosecond() / 1e6\<close>): what is read back is the instant cut to
  the millisecond below. The other field types come back as they were written. So a
  document in a collection is the struct after this round trip.
\<close>

definition bson_DateTime :: "Time \<Rightarrow> Time" where
  "bson_DateTime t = t - t mod 1000000"

definition bson_SubTask :: "SubTask \<Rightarrow> SubTask" where
  "bson_SubTask t =
     t\<lparr> st_DueDate := map_option bson_DateTime (st_DueDate t),
        st_CreatedAt := bson_DateTime (st_CreatedAt t),
        st_UpdatedAt := bson_DateTime (st_UpdatedAt t) \<rparr>"

definition bson_Goal :: "Goal \<Rightarrow> Goal" where
  "bson_Goal g =
     g\<lparr> SubTasks := map bson_SubTask (SubTasks g),
        StartDate := bson_DateTime (StartDate g),
        EndDate := map_option bson_DateTime (EndDate g),
        CreatedAt := bson_DateTime (CreatedAt g),
        UpdatedAt := bson_DateTime (UpdatedAt g) \<rparr>"

definition bson_User :: "User \<Rightarrow> User" where
  "bson_User u =
     u\<lparr> u_CreatedAt := bson_DateTime (u_CreatedAt u),
        u_UpdatedAt := bson_DateTime (u_UpdatedAt u) \<rparr>"

datatype mongo_error = ErrNoDocuments | ErrDuplicateKey | ErrDriver

definition FindOne :: "'d Collection \<Rightarrow> ('d \<Rightarrow> bool) \<Rightarrow> mongo_error + 'd" where
  "FindOne coll flt =
     (if unreachable coll then Inl ErrDriver
      else (case List.find flt (docs coll) of
              None \<Rightarrow> Inl ErrNoDocuments
            | Some d \<Rightarrow> Inr d))"

text \<open>
  \<open>InsertOne\<close> takes the struct, the field that is its \<open>_id\<close>, and the BSON round trip of
  its type: the collection gets the document as BSON holds it.
\<close>

definition InsertOne ::
  "'d Collection \<Rightarrow> ('d \<Rightarrow> ObjectID) \<Rightarrow> ('d \<Rightarrow> 'd) \<Rightarrow> 'd \<Rightarrow> mongo_error + 'd Collection" where
  "InsertOne coll idf bson_doc d =
     (if unreachable coll then Inl ErrDriver
      else if list_ex (\<lambda>e. idf e = idf d) (docs coll) then Inl ErrDuplicateKey
      else Inr (coll\<lparr>docs := docs coll @ [bson_doc d]\<rparr>))"

fun update_first :: "('d \<Rightarrow> bool) \<Rightarrow> ('d \<Rightarrow> 'd) \<Rightarrow> 'd list \<Rightarrow> 'd list" where
  "update_first flt f [] = []"
| "update_first flt f (d # ds) = (if flt d then f d # ds else d # update_first flt f ds)"

fun delete_first :: "('d \<Rightarrow> bool) \<Rightarrow> 'd list \<Rightarrow> 'd list" where
  "delete_first flt [] = []"
| "delete_first flt (d # ds) = (if flt d then ds else d # delete_first flt ds)"

text \<open>\<open>UpdateOne\<close> returns \<open>MatchedCount\<close> and the collection after the update.\<close>

definition UpdateOne ::
  "'d Collection \<Rightarrow> ('d \<Rightarrow> bool) \<Rightarrow> ('d \<Rightarrow> 'd) \<Rightarrow> mongo_error + (nat \<times> 'd Collection)" where
  "UpdateOne coll flt f =
     (if unreachable coll then Inl ErrDriver
      else Inr (if list_ex flt (docs coll) then 1 else 0,
                coll\<lparr>docs := update_first flt f (docs coll)\<rparr>))"

text \<open>\<open>DeleteOne\<close> returns \<open>DeletedCount\<close> and the collection after the deletion.\<close>

definition DeleteOne ::
  "'d Collection \<Rightarrow> ('d \<Rightarrow> bool) \<Rightarrow> mongo_error + (nat \<times> 'd Collection)" where
  "DeleteOne coll flt =
     (if unreachable coll then Inl ErrDriver
      else Inr (if list_ex flt (docs coll) then 1 else 0,
                coll\<lparr>docs := delete_first flt (docs coll)\<rparr>))"

text \<open>
  \<open>Find\<close> with \<open>SetSort(bson.M{"createdAt": -1})\<close>: the matching documents, latest first.
  \<open>cursor.All\<close> reads them all.
\<close>

definition Find_sorted :: "'d Collection \<Rightarrow> ('d \<Rightarrow> bool) \<Rightarrow> ('d \<Rightarrow> Time) \<Rightarrow> mongo_error + 'd list" where
  "Find_sorted coll flt createdAt =
     (if unreachable coll then Inl ErrDriver
      else Inr (rev (sort_key createdAt (filter flt (docs coll)))))"

definition cursor_All :: "'d Collection \<Rightarrow> 'd list \<Rightarrow> mongo_error + 'd list" where
  "cursor_All coll cursor = (if unreachable coll then Inl ErrDriver else Inr cursor)"

text \<open>
  The values a handler puts into a \<open>bson.M\<close>, and \<open>$set\<close> on a goal document: every field
  that the update names with a value of its type is replaced, the others stay. A time
  is written as a BSON datetime, so the document gets it cut to the millisecond.
\<close>

datatype bson = BString string | BTime Time | BBool bool | BDouble real | BObjectID ObjectID
  | BSubTasks "SubTask list"

type_synonym bson_M = "string \<rightharpoonup> bson"

definition apply_set :: "bson_M \<Rightarrow> Goal \<Rightarrow> Goal" where
  "apply_set u g =
     g\<lparr> UserID := (case u ''userId'' of Some (BObjectID x) \<Rightarrow> x | _ \<Rightarrow> UserID g),
        Title := (case u ''title'' of Some (BString x) \<Rightarrow> x | _ \<Rightarrow> Title g),
        Description := (case u ''description'' of Some (BString x) \<Rightarrow> x | _ \<Rightarrow> Description g),
        SubTasks := (case u ''subTasks'' of Some (BSubTasks x) \<Rightarrow> map bson_SubTask x
                     | _ \<Rightarrow> SubTasks g),
        StartDate := (case u ''startDate'' of Some (BTime x) \<Rightarrow> bson_DateTime x
                      | _ \<Rightarrow> StartDate g),
        EndDate := (case u ''endDate'' of Some (BTime x) \<Rightarrow> Some (bson_DateTime x)
                    | _ \<Rightarrow> EndDate g),
        Completed := (case u ''completed'' of Some (BBool x) \<Rightarrow> x | _ \<Rightarrow> Completed g),
        Progress := (case u ''progress'' of Some (BDouble x) \<Rightarrow> x | _ \<Rightarrow> Progress g),
        CreatedAt := (case u ''createdAt'' of Some (BTime x) \<Rightarrow> bson_DateTime x
                      | _ \<Rightarrow> CreatedAt g),
        UpdatedAt := (case u ''updatedAt'' of Some (BTime x) \<Rightarrow> bson_DateTime x
                      | _ \<Rightarrow> UpdatedAt g) \<rparr>"

section \<open>Responses\<close>

text \<open>
  \<open>c.JSON(status, obj)\<close>: the status code and the object that is serialised.
  \<open>H_error\<close> is \<open>gin.H{"error": ...}\<close>, \<open>H_message\<close> is \<open>gin.H{"message": ...}\<close>.
\<close>

datatype body =
    H_error string
  | H_message string
  | GoalJSON Goal
  | GoalsJSON "Goal list"
  | AuthResponse string UserResponse

type_synonym response = "nat \<times> body"

definition StatusOK :: nat where "StatusOK = 200"
definition StatusCreated :: nat where "StatusCreated = 201"
definition StatusBadRequest :: nat where "StatusBadRequest = 400"
definition StatusUnauthorized :: nat where "StatusUnauthorized = 401"
definition StatusForbidden :: nat where "StatusForbidden = 403"
definition StatusNotFound :: nat where "StatusNotFound = 404"
definition StatusConflict :: nat where "StatusConflict = 409"
definition StatusInternalServerError :: nat where "StatusInternalServerError = 500"

text \<open>
  \<open>encoding/json\<close> on the structs, by their tags: a field tagged \<open>json:"-"\<close> is never
  written, one tagged \<open>omitempty\<close> is left out when it is empty.
\<close>

datatype json =
    JString string
  | JBool bool
  | JNumber real
  | JTime Time
  | JArray "json list"
  | JObject "(string \<times> json) list"

definition omitempty :: "string \<Rightarrow> string \<Rightarrow> (string \<times> json) list" where
  "omitempty name v = (if v = [] then [] else [(name, JString v)])"

definition omitempty_time :: "string \<Rightarrow> Time option \<Rightarrow> (string \<times> json) list" where
  "omitempty_time name v = (case v of None \<Rightarrow> [] | Some t \<Rightarrow> [(name, JTime t)])"

definition Marshal_User :: "User \<Rightarrow> json" where
  "Marshal_User u =
     JObject ([(''id'', JString (Hex (u_ID u))), (''username'', JString (u_Username u)),
               (''email'', JString (u_Email u))]
              @ omitempty ''firstName'' (u_FirstName u) @ omitempty ''lastName'' (u_LastName u)
              @ [(''createdAt'', JTime (u_CreatedAt u)), (''updatedAt'', JTime (u_UpdatedAt u))])"

definition Marshal_UserResponse :: "UserResponse \<Rightarrow> json" where
  "Marshal_UserResponse r =
     JObject ([(''id'', JString (Hex (r_ID r))), (''username'', JString (r_Username r)),
               (''email'', JString (r_Email r))]
              @ omitempty ''firstName'' (r_FirstName r) @ omitempty ''lastName'' (r_LastName r)
              @ [(''createdAt'', JTime (r_CreatedAt r))])"

definition Marshal_SubTask :: "SubTask \<Rightarrow> json" where
  "Marshal_SubTask t =
     JObject ([(''id'', JString (Hex (st_ID t))), (''title'', JString (st_Title t))]
              @ omitempty ''description'' (st_Description t)
              @ [(''completed'', JBool (st_Completed t))]
              @ omitempty_time ''dueDate'' (st_DueDate t)
              @ [(''createdAt'', JTime (st_CreatedAt t)), (''updatedAt'', JTime (st_UpdatedAt t))])"

definition Marshal_Goal :: "Goal \<Rightarrow> json" where
  "Marshal_Goal g =
     JObject ([(''id'', JString (Hex (ID g))), (''userId'', JString (Hex (UserID g))),
               (''title'', JString (Title g))]
              @ omitempty ''description'' (Description g)
              @ [(''subTasks'', JArray (map Marshal_SubTask (SubTasks g))),
                 (''startDate'', JTime (StartDate g))]
              @ omitempty_time ''endDate'' (EndDate g)
              @ [(''completed'', JBool (Completed g)), (''progress'', JNumber (Progress g)),
                 (''createdAt'', JTime (CreatedAt g)), (''updatedAt'', JTime (UpdatedAt g))])"

fun render :: "body \<Rightarrow> json" where
  "render (H_error msg) = JObject [(''error'', JString msg)]"
| "render (H_message msg) = JObject [(''message'', JString msg)]"
| "render (GoalJSON g) = Marshal_Goal g"
| "render (GoalsJSON gs) = JArray (map Marshal_Goal gs)"
| "render (AuthResponse token r) =
     JObject [(''token'', JString token), (''user'', Marshal_UserResponse r)]"

text \<open>Every field name that occurs in a JSON value, at any depth.\<close>

fun field_names :: "json \<Rightarrow> string set" where
  "field_names (JString s) = {}"
| "field_names (JBool b) = {}"
| "field_names (JNumber x) = {}"
| "field_names (JTime t) = {}"
| "field_names (JArray xs) = (\<Union>x \<in> set xs. field_names x)"
| "field_names (JObject kvs) = fst ` set kvs \<union> (\<Union>kv \<in> set kvs. field_names (snd kv))"

section \<open>middleware: the JWT middleware\<close>

subsection \<open>golang-jwt/jwt/v5, as far as the middleware uses it\<close>

text \<open>
  \<open>TokenClaims\<close>: the \<open>userId\<close> claim and, of the embedded \<open>RegisteredClaims\<close>, the three
  dates (the library's default validation reads no other claim). A \<open>NumericDate\<close> is an
  instant cut to whole seconds (\<open>jwt.TimePrecision\<close> is one second).
\<close>

record TokenClaims =
  c_UserID :: string
  c_ExpiresAt :: "Time option"
  c_NotBefore :: "Time option"
  c_IssuedAt :: "Time option"

definition NewNumericDate :: "Time \<Rightarrow> Time" where
  "NewNumericDate t = t - t mod 1000000000"

text \<open>The registered signing methods, by the Go type of each and its \<open>alg\<close> name.\<close>

datatype SigningMethod =
    SigningMethodHMAC string
  | SigningMethodRSA string
  | SigningMethodRSAPSS string
  | SigningMethodECDSA string
  | SigningMethodEd25519
  | signingMethodNone

definition SigningMethodHS256 :: SigningMethod where
  "SigningMethodHS256 = SigningMethodHMAC ''HS256''"

fun Alg :: "SigningMethod \<Rightarrow> string" where
  "Alg (SigningMethodHMAC n) = n"
| "Alg (SigningMethodRSA n) = n"
| "Alg (SigningMethodRSAPSS n) = n"
| "Alg (SigningMethodECDSA n) = n"
| "Alg SigningMethodEd25519 = ''EdDSA''"
| "Alg signingMethodNone = ''none''"

definition GetSigningMethod :: "string \<Rightarrow> SigningMethod option" where
  "GetSigningMethod alg =
     (if alg \<in> {''HS256'', ''HS384'', ''HS512''} then Some (SigningMethodHMAC alg)
      else if alg \<in> {''RS256'', ''RS384'', ''RS512''} then Some (SigningMethodRSA alg)
      else if alg \<in> {''PS256'', ''PS384'', ''PS512''} then Some (SigningMethodRSAPSS alg)
      else if alg \<in> {''ES256'', ''ES384'', ''ES512''} then Some (SigningMethodECDSA alg)
      else if alg = ''EdDSA'' then Some SigningMethodEd25519
      else if alg = ''none'' then Some signingMethodNone
      else None)"

text \<open>
  The library's cryptography and its wire format are parameters of the model:
  \<open>encode\<close> writes the \<open>alg\<close> header, the claims and the signature as a compact token
  string, \<open>decode\<close> reads one back (\<open>None\<close>: malformed), and \<open>hmac n key input\<close> is the MAC
  of the signing input (header and claims) under \<open>key\<close> with the hash of method \<open>n\<close>.
\<close>

type_synonym signing_input = "string \<times> TokenClaims"

record jwt_lib =
  encode :: "string \<times> TokenClaims \<times> string \<Rightarrow> string"
  decode :: "string \<Rightarrow> (string \<times> TokenClaims \<times> string) option"
  hmac :: "string \<Rightarrow> string \<Rightarrow> signing_input \<Rightarrow> string"

datatype jwt_error =
    ErrTokenMalformed
  | ErrTokenUnverifiable
  | ErrTokenSignatureInvalid
  | ErrTokenExpired
  | ErrTokenNotValidYet
  | ErrInvalidKeyType

record Token =
  t_Method :: SigningMethod
  t_Claims :: TokenClaims
  t_Signature :: string
  t_Valid :: bool

text \<open>
  \<open>Sign\<close> and \<open>Verify\<close> of a signing method with a \<open>[]byte\<close> key: only the HMAC methods
  take such a key.
\<close>

fun Sign :: "jwt_lib \<Rightarrow> SigningMethod \<Rightarrow> signing_input \<Rightarrow> string \<Rightarrow> jwt_error + string" where
  "Sign lib (SigningMethodHMAC n) input key = Inr (hmac lib n key input)"
| "Sign lib _ input key = Inl ErrInvalidKeyType"

fun Verify :: "jwt_lib \<Rightarrow> SigningMethod \<Rightarrow> signing_input \<Rightarrow> string \<Rightarrow> string \<Rightarrow> bool" where
  "Verify lib (SigningMethodHMAC n) input sig key = (sig = hmac lib n key input)"
| "Verify lib _ input sig key = False"

definition SignedString :: "jwt_lib \<Rightarrow> SigningMethod \<Rightarrow> TokenClaims \<Rightarrow> string \<Rightarrow> jwt_error + string" where
  "SignedString lib method claims key =
     (case Sign lib method (Alg method, claims) key of
        Inl err \<Rightarrow> Inl err
      | Inr sig \<Rightarrow> Inr (encode lib (Alg method, claims, sig)))"

text \<open>
  The validator with its default options at the instant \<open>now\<close>: an \<open>exp\<close> claim must lie
  after \<open>now\<close>, an \<open>nbf\<close> claim must not; a claim that is absent is not checked.
\<close>

definition Validate :: "TokenClaims \<Rightarrow> Time \<Rightarrow> jwt_error option" where
  "Validate claims now =
     (if (case c_ExpiresAt claims of None \<Rightarrow> False | Some expiry \<Rightarrow> \<not> now < expiry)
        then Some ErrTokenExpired
      else if (case c_NotBefore claims of None \<Rightarrow> False | Some nbf \<Rightarrow> now < nbf)
        then Some ErrTokenNotValidYet
      else None)"

text \<open>
  \<open>ParseWithClaims\<close>: decode the token, look its method up by the \<open>alg\<close> header, ask the
  key function for the key, verify the signature, validate the claims.
\<close>

definition ParseWithClaims ::
  "jwt_lib \<Rightarrow> string \<Rightarrow> (Token \<Rightarrow> string + string) \<Rightarrow> Time \<Rightarrow> jwt_error + Token" where
  "ParseWithClaims lib tokenString keyFunc now =
     (case decode lib tokenString of
        None \<Rightarrow> Inl ErrTokenMalformed
      | Some (alg, claims, sig) \<Rightarrow>
          (case GetSigningMethod alg of
             None \<Rightarrow> Inl ErrTokenUnverifiable
           | Some method \<Rightarrow>
               (let token = \<lparr> t_Method = method, t_Claims = claims, t_Signature = sig,
                              t_Valid = False \<rparr> in
                case keyFunc token of
                  Inl err \<Rightarrow> Inl ErrTokenUnverifiable
                | Inr key \<Rightarrow>
                    if \<not> Verify lib method (alg, claims) sig key then Inl ErrTokenSignatureInvalid
                    else (case Validate claims now of
                            Some err \<Rightarrow> Inl err
                          | None \<Rightarrow> Inr (token\<lparr>t_Valid := True\<rparr>)))))"

subsection \<open>GenerateToken and AuthRequired\<close>

text \<open>
  \<open>time.Duration\<close> and Go's \<open>int\<close> are 64-bit integers; \<open>time.Hour\<close> is a number of
  nanoseconds. \<open>Time.Add\<close> moves an instant by a duration read as a signed value.
\<close>

definition Hour :: "64 word" where
  "Hour = 3600000000000"

definition Time_Add :: "Time \<Rightarrow> 64 word \<Rightarrow> Time" where
  "Time_Add t d = t + sint d"

text \<open>
  \<open>GenerateToken\<close> reads the clock twice: \<open>now1\<close> for the expiry, \<open>now2\<close> for \<open>IssuedAt\<close>.
\<close>

definition GenerateToken ::
  "jwt_lib \<Rightarrow> string \<Rightarrow> Time \<Rightarrow> Time \<Rightarrow> ObjectID \<Rightarrow> 64 word \<Rightarrow> jwt_error + string" where
  "GenerateToken lib jwtSecret now1 now2 userID expiryHours =
     (let expirationTime = Time_Add now1 (expiryHours * Hour);
          claims = \<lparr> c_UserID = Hex userID,
                     c_ExpiresAt = Some (NewNumericDate expirationTime),
                     c_NotBefore = None,
                     c_IssuedAt = Some (NewNumericDate now2) \<rparr>
      in SignedString lib SigningMethodHS256 claims jwtSecret)"

text \<open>The key function that \<open>AuthRequired\<close> hands to the parser.\<close>

definition keyFunc :: "string \<Rightarrow> Token \<Rightarrow> string + string" where
  "keyFunc jwtSecret token =
     (case t_Method token of
        SigningMethodHMAC n \<Rightarrow> Inr jwtSecret
      | _ \<Rightarrow> Inl ''unexpected signing method'')"

text \<open>
  \<open>AuthRequired\<close> on the value of the \<open>Authorization\<close> header, at the instant \<open>now\<close>:
  it aborts the request with a response, or lets it pass with \<open>userId\<close> set in the context.
\<close>

datatype auth_result = Abort response | Next ObjectID

definition AuthRequired :: "jwt_lib \<Rightarrow> string \<Rightarrow> Time \<Rightarrow> string \<Rightarrow> auth_result" where
  "AuthRequired lib jwtSecret now authHeader =
     (if authHeader = []
        then Abort (StatusUnauthorized, H_error ''Authorization header is required'')
      else
        (let parts = strings_Split authHeader (CHR '' '') in
         if length parts \<noteq> 2 \<or> parts ! 0 \<noteq> ''Bearer''
           then Abort (StatusUnauthorized,
                       H_error ''Authorization header format must be Bearer {token}'')
         else
           (let tokenString = parts ! 1 in
            case ParseWithClaims lib tokenString (keyFunc jwtSecret) now of
              Inl err \<Rightarrow> Abort (StatusUnauthorized, H_error ''Invalid or expired token'')
            | Inr token \<Rightarrow>
                if \<not> t_Valid token then Abort (StatusUnauthorized, H_error ''Invalid token'')
                else (case ObjectIDFromHex (c_UserID (t_Claims token)) of
                        None \<Rightarrow> Abort (StatusUnauthorized, H_error ''Invalid user ID in token'')
                      | Some userID \<Rightarrow> Next userID))))"

section \<open>handlers\<close>

text \<open>
  What a handler reads from the \<open>gin.Context\<close>: the path parameter \<open>id\<close>, the \<open>userId\<close>
  that the middleware has set (if any), and the outcome of \<open>ShouldBindJSON\<close> on the body:
  the text of the binding error, or the request struct. A handler returns its response
  and the collection as it leaves it. \<open>time.Now()\<close> and \<open>primitive.NewObjectID()\<close> are
  arguments. \<open>validator.Struct\<close> is an argument too: \<open>None\<close> when the struct passes its
  \<open>validate\<close> tags, the text of the error otherwise.
\<close>

record 'r Context =
  Param_id :: string
  userId :: "ObjectID option"
  ShouldBindJSON :: "string + 'r"

subsection \<open>handlers/goal.go\<close>

record CreateGoalRequest =
  cq_Title :: string
  cq_Description :: string
  cq_StartDate :: Time
  cq_EndDate :: "Time option"

record UpdateGoalRequest =
  uq_Title :: string
  uq_Description :: string
  uq_StartDate :: Time
  uq_EndDate :: "Time option"
  uq_Completed :: bool

text \<open>The filter \<open>bson.M{"_id": goalID, "userId": userID}\<close>.\<close>

definition by_id_and_user :: "ObjectID \<Rightarrow> ObjectID \<Rightarrow> Goal \<Rightarrow> bool" where
  "by_id_and_user goalID userID g = (ID g = goalID \<and> UserID g = userID)"

text \<open>The filter \<open>bson.M{"userId": userID}\<close>.\<close>

definition by_user :: "ObjectID \<Rightarrow> Goal \<Rightarrow> bool" where
  "by_user userID g = (UserID g = userID)"

definition CreateGoal ::
  "Goal Collection \<Rightarrow> (CreateGoalRequest \<Rightarrow> string option) \<Rightarrow> Time \<Rightarrow> ObjectID \<Rightarrow>
   CreateGoalRequest Context \<Rightarrow> response \<times> Goal Collection" where
  "CreateGoal goalCollection validator_Struct now newObjectID c =
     (case ShouldBindJSON c of
        Inl err \<Rightarrow> ((StatusBadRequest, H_error err), goalCollection)
      | Inr req \<Rightarrow>
          (case validator_Struct req of
             Some err \<Rightarrow> ((StatusBadRequest, H_error err), goalCollection)
           | None \<Rightarrow>
               (case userId c of
                  None \<Rightarrow> ((StatusUnauthorized, H_error ''User ID not found in context''),
                            goalCollection)
                | Some userID \<Rightarrow>
                    (let goal = \<lparr> ID = newObjectID, UserID = userID, Title = cq_Title req,
                                   Description = cq_Description req, SubTasks = [],
                                   StartDate = cq_StartDate req, EndDate = cq_EndDate req,
                                   Completed = False, Progress = 0,
                                   CreatedAt = now, UpdatedAt = now \<rparr> in
                     case InsertOne goalCollection ID bson_Goal goal of
                       Inl err \<Rightarrow> ((StatusInternalServerError, H_error ''Failed to create goal''),
                                    goalCollection)
                     | Inr coll' \<Rightarrow> ((StatusCreated, GoalJSON goal), coll')))))"

definition GetGoal :: "Goal Collection \<Rightarrow> 'r Context \<Rightarrow> response \<times> Goal Collection" where
  "GetGoal goalCollection c =
     (case ObjectIDFromHex (Param_id c) of
        None \<Rightarrow> ((StatusBadRequest, H_error ''Invalid goal ID''), goalCollection)
      | Some goalID \<Rightarrow>
          (case userId c of
             None \<Rightarrow> ((StatusUnauthorized, H_error ''User ID not found in context''),
                       goalCollection)
           | Some userID \<Rightarrow>
               (case FindOne goalCollection (by_id_and_user goalID userID) of
                  Inl err \<Rightarrow>
                    (if err = ErrNoDocuments
                       then ((StatusNotFound, H_error ''Goal not found''), goalCollection)
                     else ((StatusInternalServerError, H_error ''Failed to get goal''),
                           goalCollection))
                | Inr goal \<Rightarrow> ((StatusOK, GoalJSON goal), goalCollection))))"

definition ListGoals :: "Goal Collection \<Rightarrow> 'r Context \<Rightarrow> response \<times> Goal Collection" where
  "ListGoals goalCollection c =
     (case userId c of
        None \<Rightarrow> ((StatusUnauthorized, H_error ''User ID not found in context''), goalCollection)
      | Some userID \<Rightarrow>
          (case Find_sorted goalCollection (by_user userID) CreatedAt of
             Inl err \<Rightarrow> ((StatusInternalServerError, H_error ''Failed to list goals''),
                          goalCollection)
           | Inr cursor \<Rightarrow>
               (case cursor_All goalCollection cursor of
                  Inl err \<Rightarrow> ((StatusInternalServerError, H_error ''Failed to decode goals''),
                               goalCollection)
                | Inr goals \<Rightarrow> ((StatusOK, GoalsJSON goals), goalCollection))))"

text \<open>The update document that \<open>UpdateGoal\<close> builds from the request.\<close>

definition UpdateGoal_update :: "Time \<Rightarrow> UpdateGoalRequest \<Rightarrow> bson_M" where
  "UpdateGoal_update now req =
     (let update = [''updatedAt'' \<mapsto> BTime now];
          update = (if uq_Title req \<noteq> [] then update(''title'' \<mapsto> BString (uq_Title req))
                    else update);
          update = (if uq_Description req \<noteq> []
                      then update(''description'' \<mapsto> BString (uq_Description req))
                    else update);
          update = (if \<not> IsZero (uq_StartDate req)
                      then update(''startDate'' \<mapsto> BTime (uq_StartDate req))
                    else update);
          update = (case uq_EndDate req of
                      Some endDate \<Rightarrow> update(''endDate'' \<mapsto> BTime endDate)
                    | None \<Rightarrow> update)
      in update(''completed'' \<mapsto> BBool (uq_Completed req)))"

definition UpdateGoal ::
  "Goal Collection \<Rightarrow> Time \<Rightarrow> UpdateGoalRequest Context \<Rightarrow> response \<times> Goal Collection" where
  "UpdateGoal goalCollection now c =
     (case ObjectIDFromHex (Param_id c) of
        None \<Rightarrow> ((StatusBadRequest, H_error ''Invalid goal ID''), goalCollection)
      | Some goalID \<Rightarrow>
          (case userId c of
             None \<Rightarrow> ((StatusUnauthorized, H_error ''User ID not found in context''),
                       goalCollection)
           | Some userID \<Rightarrow>
               (case ShouldBindJSON c of
                  Inl err \<Rightarrow> ((StatusBadRequest, H_error err), goalCollection)
                | Inr req \<Rightarrow>
                    (case UpdateOne goalCollection (by_id_and_user goalID userID)
                            (apply_set (UpdateGoal_update now req)) of
                       Inl err \<Rightarrow> ((StatusInternalServerError, H_error ''Failed to update goal''),
                                    goalCollection)
                     | Inr (MatchedCount, coll') \<Rightarrow>
                         if MatchedCount = 0
                           then ((StatusNotFound, H_error ''Goal not found''), coll')
                         else
                           (case FindOne coll' (by_id_and_user goalID userID) of
                              Inl err \<Rightarrow>
                                ((StatusInternalServerError,
                                  H_error ''Failed to get updated goal''), coll')
                            | Inr goal \<Rightarrow> ((StatusOK, GoalJSON goal), coll'))))))"

definition DeleteGoal :: "Goal Collection \<Rightarrow> 'r Context \<Rightarrow> response \<times> Goal Collection" where
  "DeleteGoal goalCollection c =
     (case ObjectIDFromHex (Param_id c) of
        None \<Rightarrow> ((StatusBadRequest, H_error ''Invalid goal ID''), goalCollection)
      | Some goalID \<Rightarrow>
          (case userId c of
             None \<Rightarrow> ((StatusUnauthorized, H_error ''User ID not found in context''),
                       goalCollection)
           | Some userID \<Rightarrow>
               (case DeleteOne goalCollection (by_id_and_user goalID userID) of
                  Inl err \<Rightarrow> ((StatusInternalServerError, H_error ''Failed to delete goal''),
                               goalCollection)
                | Inr (DeletedCount, coll') \<Rightarrow>
                    if DeletedCount = 0
                      then ((StatusNotFound, H_error ''Goal not found''), coll')
                    else ((StatusOK, H_message ''Goal deleted successfully''), coll'))))"

subsection \<open>handlers/auth.go\<close>

record RegisterRequest =
  rq_Username :: string
  rq_Email :: string
  rq_Password :: string
  rq_FirstName :: string
  rq_LastName :: string

record LoginRequest =
  lq_Email :: string
  lq_Password :: string

text \<open>
  What an \<open>AuthHandler\<close> holds and reads from its surroundings: the user collection is
  passed separately; here are the validator, the two libraries, the secret of the JWT
  middleware, the clock reads (\<open>time.Now()\<close> in the handler, and the two reads of
  \<open>GenerateToken\<close>) and the fresh ObjectID. What \<open>utils.TraceFunction\<close> and
  \<open>utils.DebugObject\<close> write to the process log is no part of a response and is left out.
\<close>

record 'r AuthEnv =
  validator_Struct :: "'r \<Rightarrow> string option"
  bcrypt :: bcrypt_lib
  jwt :: jwt_lib
  jwtSecret :: string
  time_Now :: Time
  time_Now1 :: Time
  time_Now2 :: Time
  NewObjectID :: ObjectID

definition by_email :: "string \<Rightarrow> User \<Rightarrow> bool" where
  "by_email email u = (u_Email u = email)"

definition by_username :: "string \<Rightarrow> User \<Rightarrow> bool" where
  "by_username username u = (u_Username u = username)"

definition Register ::
  "User Collection \<Rightarrow> RegisterRequest AuthEnv \<Rightarrow> RegisterRequest Context \<Rightarrow>
   response \<times> User Collection" where
  "Register userCollection h c =
     (case ShouldBindJSON c of
        Inl err \<Rightarrow> ((StatusBadRequest, H_error err), userCollection)
      | Inr req \<Rightarrow>
          (case validator_Struct h req of
             Some err \<Rightarrow> ((StatusBadRequest, H_error err), userCollection)
           | None \<Rightarrow>
               (case FindOne userCollection (by_email (rq_Email req)) of
                  Inr existingUser \<Rightarrow>
                    ((StatusConflict, H_error ''User with this email already exists''),
                     userCollection)
                | Inl err \<Rightarrow>
                    (case FindOne userCollection (by_username (rq_Username req)) of
                       Inr existingUser \<Rightarrow>
                         ((StatusConflict, H_error ''Username is already taken''),
                          userCollection)
                     | Inl err \<Rightarrow>
                         (let user = \<lparr> u_ID = NewObjectID h, u_Username = rq_Username req,
                                        u_Email = rq_Email req, u_Password = rq_Password req,
                                        u_FirstName = rq_FirstName req,
                                        u_LastName = rq_LastName req,
                                        u_CreatedAt = time_Now h, u_UpdatedAt = time_Now h \<rparr> in
                          case HashPassword (bcrypt h) user of
                            None \<Rightarrow>
                              ((StatusInternalServerError, H_error ''Failed to hash password''),
                               userCollection)
                          | Some user \<Rightarrow>
                              (case InsertOne userCollection u_ID bson_User user of
                                 Inl err \<Rightarrow>
                                   ((StatusInternalServerError,
                                     H_error ''Failed to create user''), userCollection)
                               | Inr coll' \<Rightarrow>
                                   (case GenerateToken (jwt h) (jwtSecret h) (time_Now1 h)
                                           (time_Now2 h) (u_ID user) 24 of
                                      Inl err \<Rightarrow>
                                        ((StatusInternalServerError,
                                          H_error ''Failed to generate token''), coll')
                                    | Inr token \<Rightarrow>
                                        ((StatusCreated, AuthResponse token (ToResponse user)),
                                         coll'))))))))"

definition Login ::
  "User Collection \<Rightarrow> LoginRequest AuthEnv \<Rightarrow> LoginRequest Context \<Rightarrow> response" where
  "Login userCollection h c =
     (case ShouldBindJSON c of
        Inl err \<Rightarrow> (StatusBadRequest, H_error err)
      | Inr req \<Rightarrow>
          (case validator_Struct h req of
             Some err \<Rightarrow> (StatusBadRequest, H_error err)
           | None \<Rightarrow>
               (case FindOne userCollection (by_email (lq_Email req)) of
                  Inl err \<Rightarrow> (StatusUnauthorized, H_error ''Invalid email or password'')
                | Inr user \<Rightarrow>
                    if \<not> ComparePassword (bcrypt h) user (lq_Password req)
                      then (StatusUnauthorized, H_error ''Invalid email or password'')
                    else
                      (case GenerateToken (jwt h) (jwtSecret h) (time_Now1 h) (time_Now2 h)
                              (u_ID user) 24 of
                         Inl err \<Rightarrow> (StatusInternalServerError,
                                      H_error ''Failed to generate token'')
                       | Inr token \<Rightarrow> (StatusOK, AuthResponse token (ToResponse user))))))"

section \<open>Concrete values\<close>

text \<open>
  Inputs on which the model is run below: two identities and the id of a goal, alice's
  goal \<open>Learn Go\<close> with the request that creates it and two update requests, and a
  finished subtask.
\<close>

definition alice :: ObjectID where
  "alice = [0xa1, 0xa1, 0xa1, 0xa1, 0xa1, 0xa1, 0xa1, 0xa1, 0xa1, 0xa1, 0xa1, 0xa1]"

definition bob :: ObjectID where
  "bob = [0xb0, 0xb0, 0xb0, 0xb0, 0xb0, 0xb0, 0xb0, 0xb0, 0xb0, 0xb0, 0xb0, 0xb0]"

definition goal1 :: ObjectID where
  "goal1 = [1, 1, 1, 1, 1, 1, 1, 1, 1, 1, 1, 1]"

definition learn_go_request :: CreateGoalRequest where
  "learn_go_request = \<lparr> cq_Title = ''Learn Go'', cq_Description = [], cq_StartDate = 0,
       cq_EndDate = None \<rparr>"

definition learn_go :: Goal where
  "learn_go = \<lparr> ID = goal1, UserID = alice, Title = ''Learn Go'', Description = [],
       SubTasks = [], StartDate = 0, EndDate = None, Completed = False, Progress = 0,
       CreatedAt = 0, UpdatedAt = 0 \<rparr>"

text \<open>
  The bodies \<open>{"title": "Learn Rust"}\<close> and \<open>{"completed": true}\<close> as \<open>ShouldBindJSON\<close>
  binds them: a field that the body leaves out has the zero value of its type.
\<close>

definition rename_request :: UpdateGoalRequest where
  "rename_request = \<lparr> uq_Title = ''Learn Rust'', uq_Description = [], uq_StartDate = zeroTime,
       uq_EndDate = None, uq_Completed = False \<rparr>"

definition completed_request :: UpdateGoalRequest where
  "completed_request = \<lparr> uq_Title = [], uq_Description = [], uq_StartDate = zeroTime,
       uq_EndDate = None, uq_Completed = True \<rparr>"

text \<open>
  A request that moves the goal: a start and an end date, as nanoseconds, neither on a
  whole millisecond.
\<close>

definition reschedule_request :: UpdateGoalRequest where
  "reschedule_request = \<lparr> uq_Title = [], uq_Description = [], uq_StartDate = 1000123456,
       uq_EndDate = Some 2000999999, uq_Completed = False \<rparr>"

definition done_task :: SubTask where
  "done_task = \<lparr> st_ID = bob, st_Title = ''Read the tour'', st_Description = [],
       st_Completed = True, st_DueDate = None, st_CreatedAt = 0, st_UpdatedAt = 0 \<rparr>"

text \<open>
  Instances of the library parameters. \<open>example_jwt s t\<close> writes the token \<open>t\<close> as the
  string \<open>s\<close> and reads \<open>s\<close> back as \<open>t\<close>; \<open>example_hmac\<close> stands for the MAC. The two
  bcrypt instances differ in the hashes they produce and agree on which password
  matches.
\<close>

definition example_hmac :: "string \<Rightarrow> string \<Rightarrow> signing_input \<Rightarrow> string" where
  "example_hmac n key input = n @ ''/'' @ key @ ''/'' @ fst input @ ''/'' @ c_UserID (snd input)"

definition example_jwt :: "string \<Rightarrow> string \<times> TokenClaims \<times> string \<Rightarrow> jwt_lib" where
  "example_jwt s t =
     \<lparr> encode = (\<lambda>t'. if t' = t then s else []),
       decode = (\<lambda>s'. if s' = s then Some t else None),
       hmac = example_hmac \<rparr>"

definition example_bcrypt :: bcrypt_lib where
  "example_bcrypt =
     \<lparr> GenerateFromPassword = (\<lambda>password cost. Some (''$2a$10$'' @ password)),
       CompareHashAndPassword = (\<lambda>hashed password. hashed = ''$2a$10$'' @ password) \<rparr>"

definition example_bcrypt2 :: bcrypt_lib where
  "example_bcrypt2 =
     \<lparr> GenerateFromPassword = (\<lambda>password cost. Some (''$2b$12$'' @ password)),
       CompareHashAndPassword = (\<lambda>hashed password. hashed = ''$2b$12$'' @ password) \<rparr>"

text \<open>
  Tokens for alice: the one that \<open>GenerateToken\<close> issues for 24 hours when the clock reads
  500 and 900 nanoseconds, the one it issues for 2562048 hours at instant 0, one
  that declares \<open>HS384\<close> and one that declares \<open>none\<close>.
\<close>

definition claims_24h :: TokenClaims where
  "claims_24h = \<lparr> c_UserID = ''a1a1a1a1a1a1a1a1a1a1a1a1'', c_ExpiresAt = Some 86400000000000,
       c_NotBefore = None, c_IssuedAt = Some 0 \<rparr>"

definition token_24h :: "string \<times> TokenClaims \<times> string" where
  "token_24h = (''HS256'', claims_24h, example_hmac ''HS256'' ''secret'' (''HS256'', claims_24h))"

definition claims_overflow :: TokenClaims where
  "claims_overflow = \<lparr> c_UserID = ''a1a1a1a1a1a1a1a1a1a1a1a1'',
       c_ExpiresAt = Some (- 9223371274000000000), c_NotBefore = None, c_IssuedAt = Some 0 \<rparr>"

definition token_overflow :: "string \<times> TokenClaims \<times> string" where
  "token_overflow =
     (''HS256'', claims_overflow, example_hmac ''HS256'' ''secret'' (''HS256'', claims_overflow))"

definition token_hs384 :: "string \<times> TokenClaims \<times> string" where
  "token_hs384 = (''HS384'', claims_24h, example_hmac ''HS384'' ''secret'' (''HS384'', claims_24h))"

definition token_none :: "string \<times> TokenClaims \<times> string" where
  "token_none = (''none'', claims_24h, [])"

text \<open>The user alice, a registration for bob, and what the two auth handlers hold.\<close>

definition alice_user :: User where
  "alice_user = \<lparr> u_ID = alice, u_Username = ''alice'', u_Email = ''a@x.com'',
       u_Password = ''$2a$10$secret1'', u_FirstName = [], u_LastName = [],
       u_CreatedAt = 0, u_UpdatedAt = 0 \<rparr>"

definition bob_request :: RegisterRequest where
  "bob_request = \<lparr> rq_Username = ''bob'', rq_Email = ''b@x.com'', rq_Password = ''secret2'',
       rq_FirstName = [], rq_LastName = [] \<rparr>"

definition login_env :: "LoginRequest AuthEnv" where
  "login_env = \<lparr> validator_Struct = (\<lambda>req. None), bcrypt = example_bcrypt,
       jwt = example_jwt ''h.c.s'' token_24h, jwtSecret = ''secret'',
       time_Now = 500, time_Now1 = 500, time_Now2 = 900, NewObjectID = bob \<rparr>"

definition register_env :: "RegisterRequest AuthEnv" where
  "register_env = \<lparr> validator_Struct = (\<lambda>req. None), bcrypt = example_bcrypt,
       jwt = example_jwt ''h.c.s'' token_24h, jwtSecret = ''secret'',
       time_Now = 500, time_Now1 = 500, time_Now2 = 900, NewObjectID = bob \<rparr>"

section \<open>Properties of the Progress Engine\<close>

lemma count_completed_acc:
  "count_completed ts n = n + length (filter st_Completed ts)"
  by (induction ts arbitrary: n) auto

lemma IsCompleted_loop_fst:
  "fst (IsCompleted_loop ts g) = (\<forall>t \<in> set ts. st_Completed t)"
  by (induction ts) auto

lemma IsCompleted_loop_snd:
  "snd (IsCompleted_loop ts g) = g\<lparr>Completed := (\<forall>t \<in> set ts. st_Completed t)\<rparr>"
  by (induction ts) auto

lemma Recompute_nonempty:
  "SubTasks g \<noteq> [] \<Longrightarrow>
     Progress (Recompute g) =
       100 * real (length (filter st_Completed (SubTasks g))) / real (length (SubTasks g))
     \<and> Completed (Recompute g) = (\<forall>t \<in> set (SubTasks g). st_Completed t)"
  by (simp add: Recompute_def IsCompleted_def CalculateProgress_def
      IsCompleted_loop_snd count_completed_acc)

lemma Recompute_empty:
  "SubTasks g = [] \<Longrightarrow> Recompute g = g\<lparr>Progress := 0\<rparr>"
  by (simp add: Recompute_def IsCompleted_def CalculateProgress_def)

text \<open>
  C6. With no subtasks \<open>Recompute\<close> sets the progress to 0 but leaves the completed flag as
  it found it: \<open>IsCompleted\<close> returns \<open>false\<close> before it writes the field. Alice's goal
  without subtasks, once stored as completed, is still completed after \<open>Recompute\<close>.
\<close>

theorem C6_empty_goal_stays_completed:
  "SubTasks (learn_go\<lparr>Completed := True\<rparr>) = []
   \<and> Recompute (learn_go\<lparr>Completed := True\<rparr>) = learn_go\<lparr>Completed := True\<rparr>
   \<and> Completed (Recompute (learn_go\<lparr>Completed := True\<rparr>)) = True
   \<and> Progress (Recompute (learn_go\<lparr>Completed := True\<rparr>)) = 0
   \<and> fst (IsCompleted (learn_go\<lparr>Completed := True\<rparr>)) = False"
  by (simp add: Recompute_def IsCompleted_def CalculateProgress_def learn_go_def)

section \<open>Properties of the document store\<close>

lemma find_no_match: "\<forall>d \<in> set ds. \<not> flt d \<Longrightarrow> List.find flt ds = None"
  by (simp add: find_None_iff)






lemma goal1_hex: "ObjectIDFromHex ''010101010101010101010101'' = Some goal1"
  by (simp add: ObjectIDFromHex_def goal1_def fromHexChar_def)


section \<open>Properties of login\<close>

text \<open>
  C7. A login request that passes binding and validation gets the same response, 401 with
  \<open>Invalid email or password\<close>, when no stored user has the email and when the stored
  hash does not match the password.
\<close>

theorem C7_login_failures_indistinguishable:
  assumes "ShouldBindJSON c = Inr req" and "validator_Struct h req = None"
  shows "((\<forall>u \<in> set (docs userCollection). u_Email u \<noteq> lq_Email req) \<longrightarrow>
            Login userCollection h c
              = (StatusUnauthorized, H_error ''Invalid email or password''))
       \<and> (\<forall>user. FindOne userCollection (by_email (lq_Email req)) = Inr user
                 \<and> \<not> CompareHashAndPassword (bcrypt h) (u_Password user) (lq_Password req) \<longrightarrow>
            Login userCollection h c
              = (StatusUnauthorized, H_error ''Invalid email or password''))"
proof (intro conjI impI allI)
  assume "\<forall>u \<in> set (docs userCollection). u_Email u \<noteq> lq_Email req"
  then have "\<forall>u \<in> set (docs userCollection). \<not> by_email (lq_Email req) u"
    by (simp add: by_email_def)
  then have "List.find (by_email (lq_Email req)) (docs userCollection) = None"
    by (rule find_no_match)
  then show "Login userCollection h c
      = (StatusUnauthorized, H_error ''Invalid email or password'')"
    using assms by (simp add: Login_def FindOne_def)
next
  fix user
  assume "FindOne userCollection (by_email (lq_Email req)) = Inr user
      \<and> \<not> CompareHashAndPassword (bcrypt h) (u_Password user) (lq_Password req)"
  then show "Login userCollection h c
      = (StatusUnauthorized, H_error ''Invalid email or password'')"
    using assms by (simp add: Login_def ComparePassword_def)
qed

theorem C7_witness:
  "Login \<lparr>docs = [alice_user], unreachable = False\<rparr> login_env
       \<lparr>Param_id = [], userId = None,
        ShouldBindJSON = Inr \<lparr>lq_Email = ''b@x.com'', lq_Password = ''secret1''\<rparr>\<rparr>
     = (StatusUnauthorized, H_error ''Invalid email or password'')
   \<and> Login \<lparr>docs = [alice_user], unreachable = False\<rparr> login_env
       \<lparr>Param_id = [], userId = None,
        ShouldBindJSON = Inr \<lparr>lq_Email = ''a@x.com'', lq_Password = ''wrong''\<rparr>\<rparr>
     = (StatusUnauthorized, H_error ''Invalid email or password'')"
proof -
  have v: "validator_Struct login_env req = None" for req
    by (simp add: login_env_def)
  have a: "\<forall>u \<in> set (docs \<lparr>docs = [alice_user], unreachable = False\<rparr>).
      u_Email u \<noteq> lq_Email \<lparr>lq_Email = ''b@x.com'', lq_Password = ''secret1''\<rparr>"
    by (simp add: alice_user_def)
  have b: "FindOne \<lparr>docs = [alice_user], unreachable = False\<rparr>
        (by_email (lq_Email \<lparr>lq_Email = ''a@x.com'', lq_Password = ''wrong''\<rparr>)) = Inr alice_user
      \<and> \<not> CompareHashAndPassword (bcrypt login_env) (u_Password alice_user)
            (lq_Password \<lparr>lq_Email = ''a@x.com'', lq_Password = ''wrong''\<rparr>)"
    by (simp add: FindOne_def by_email_def alice_user_def login_env_def example_bcrypt_def)
  have s1: "ShouldBindJSON \<lparr>Param_id = [], userId = None,
        ShouldBindJSON = Inr \<lparr>lq_Email = ''b@x.com'', lq_Password = ''secret1''\<rparr>\<rparr>
      = Inr \<lparr>lq_Email = ''b@x.com'', lq_Password = ''secret1''\<rparr>"
    by simp
  have s2: "ShouldBindJSON \<lparr>Param_id = [], userId = None,
        ShouldBindJSON = Inr \<lparr>lq_Email = ''a@x.com'', lq_Password = ''wrong''\<rparr>\<rparr>
      = Inr \<lparr>lq_Email = ''a@x.com'', lq_Password = ''wrong''\<rparr>"
    by simp
  from C7_login_failures_indistinguishable [OF s1 v,
      of "\<lparr>docs = [alice_user], unreachable = False\<rparr>"] a
  have 1: "Login \<lparr>docs = [alice_user], unreachable = False\<rparr> login_env
       \<lparr>Param_id = [], userId = None,
        ShouldBindJSON = Inr \<lparr>lq_Email = ''b@x.com'', lq_Password = ''secret1''\<rparr>\<rparr>
     = (StatusUnauthorized, H_error ''Invalid email or password'')"
    by blast
  from C7_login_failures_indistinguishable [OF s2 v,
      of "\<lparr>docs = [alice_user], unreachable = False\<rparr>"] b
  have 2: "Login \<lparr>docs = [alice_user], unreachable = False\<rparr> login_env
       \<lparr>Param_id = [], userId = None,
        ShouldBindJSON = Inr \<lparr>lq_Email = ''a@x.com'', lq_Password = ''wrong''\<rparr>\<rparr>
     = (StatusUnauthorized, H_error ''Invalid email or password'')"
    by blast
  from 1 2 show ?thesis by (rule conjI)
qed

section \<open>Properties of the middleware\<close>

subsection \<open>The shape of the header\<close>

lemma genSplit_no_sep: "sep \<notin> set s \<Longrightarrow> genSplit sep s cur = [cur @ s]"
  by (induction s arbitrary: cur) auto

lemma genSplit_length: "length (genSplit sep s cur) = Suc (length (filter (\<lambda>x. x = sep) s))"
  by (induction s arbitrary: cur) auto

lemma genSplit_two:
  "genSplit sep s cur = [a, b] \<longleftrightarrow> (\<exists>p. s = p @ sep # b \<and> a = cur @ p \<and> sep \<notin> set p \<and> sep \<notin> set b)"
proof (induction s arbitrary: cur)
  case Nil
  then show ?case by simp
next
  case (Cons x xs)
  show ?case
  proof (cases "x = sep")
    case True
    have "genSplit sep xs [] = [b] \<longleftrightarrow> xs = b \<and> sep \<notin> set b"
    proof
      assume h: "genSplit sep xs [] = [b]"
      have "length (genSplit sep xs []) = Suc (length (filter (\<lambda>x. x = sep) xs))"
        by (rule genSplit_length)
      with h have "filter (\<lambda>x. x = sep) xs = []" by simp
      then have ns: "sep \<notin> set xs" by (auto simp: filter_empty_conv)
      with h show "xs = b \<and> sep \<notin> set b" by (simp add: genSplit_no_sep)
    next
      assume "xs = b \<and> sep \<notin> set b"
      then show "genSplit sep xs [] = [b]" by (simp add: genSplit_no_sep)
    qed
    with True show ?thesis
      apply simp
      apply (rule iffI)
       apply (rule exI [of _ "[]"])
       apply simp
      apply (elim exE conjE)
      subgoal for p by (cases p) auto
      done
  next
    case False
    have "genSplit sep (x # xs) cur = [a, b] \<longleftrightarrow> genSplit sep xs (cur @ [x]) = [a, b]"
      using False by simp
    also have "\<dots> \<longleftrightarrow> (\<exists>p. xs = p @ sep # b \<and> a = (cur @ [x]) @ p \<and> sep \<notin> set p \<and> sep \<notin> set b)"
      by (rule Cons.IH)
    also have "\<dots> \<longleftrightarrow> (\<exists>p. x # xs = p @ sep # b \<and> a = cur @ p \<and> sep \<notin> set p \<and> sep \<notin> set b)"
    proof
      assume "\<exists>p. xs = p @ sep # b \<and> a = (cur @ [x]) @ p \<and> sep \<notin> set p \<and> sep \<notin> set b"
      then obtain p where "xs = p @ sep # b" "a = (cur @ [x]) @ p" "sep \<notin> set p" "sep \<notin> set b"
        by blast
      with False have "x # xs = (x # p) @ sep # b \<and> a = cur @ (x # p) \<and> sep \<notin> set (x # p) \<and> sep \<notin> set b"
        by auto
      then show "\<exists>p. x # xs = p @ sep # b \<and> a = cur @ p \<and> sep \<notin> set p \<and> sep \<notin> set b"
        by blast
    next
      assume "\<exists>p. x # xs = p @ sep # b \<and> a = cur @ p \<and> sep \<notin> set p \<and> sep \<notin> set b"
      then obtain p where p: "x # xs = p @ sep # b" "a = cur @ p" "sep \<notin> set p" "sep \<notin> set b"
        by blast
      with False obtain q where "p = x # q" by (cases p) auto
      with p have "xs = q @ sep # b \<and> a = (cur @ [x]) @ q \<and> sep \<notin> set q \<and> sep \<notin> set b"
        by auto
      then show "\<exists>p. xs = p @ sep # b \<and> a = (cur @ [x]) @ p \<and> sep \<notin> set p \<and> sep \<notin> set b"
        by blast
    qed
    finally show ?thesis .
  qed
qed

lemma Split_Bearer:
  "strings_Split h (CHR '' '') = [''Bearer'', tok] \<longleftrightarrow> h = ''Bearer '' @ tok \<and> CHR '' '' \<notin> set tok"
  by (auto simp: strings_Split_def genSplit_two)

lemma two_parts:
  "length parts = 2 \<and> parts ! 0 = a \<longleftrightarrow> (\<exists>b. parts = [a, b])"
proof
  assume h: "length parts = 2 \<and> parts ! 0 = a"
  then obtain x y where "parts = [x, y]"
    by (cases parts; cases "tl parts") auto
  with h show "\<exists>b. parts = [a, b]" by simp
next
  assume "\<exists>b. parts = [a, b]"
  then show "length parts = 2 \<and> parts ! 0 = a" by auto
qed

text \<open>What the middleware does with the token, once the header has the right shape.\<close>

lemma AuthRequired_Bearer:
  assumes "strings_Split h (CHR '' '') = [''Bearer'', tok]"
  shows "AuthRequired lib secret now h =
     (case ParseWithClaims lib tok (keyFunc secret) now of
        Inl err \<Rightarrow> Abort (StatusUnauthorized, H_error ''Invalid or expired token'')
      | Inr token \<Rightarrow>
          if \<not> t_Valid token then Abort (StatusUnauthorized, H_error ''Invalid token'')
          else (case ObjectIDFromHex (c_UserID (t_Claims token)) of
                  None \<Rightarrow> Abort (StatusUnauthorized, H_error ''Invalid user ID in token'')
                | Some userID \<Rightarrow> Next userID))"
proof -
  have "h \<noteq> []" using assms by (auto simp: strings_Split_def)
  then show ?thesis using assms by (simp add: AuthRequired_def)
qed

lemma AuthRequired_bad_shape:
  assumes "\<not> (\<exists>tok. strings_Split h (CHR '' '') = [''Bearer'', tok])"
  shows "\<exists>msg. AuthRequired lib secret now h = Abort (StatusUnauthorized, H_error msg)"
proof (cases "h = []")
  case True
  then show ?thesis by (simp add: AuthRequired_def)
next
  case False
  from assms have "\<not> (length (strings_Split h (CHR '' '')) = 2 \<and> strings_Split h (CHR '' '') ! 0 = ''Bearer'')"
    by (simp add: two_parts)
  then show ?thesis using False by (auto simp add: AuthRequired_def Let_def)
qed

lemma AuthRequired_Abort_status:
  "AuthRequired lib secret now h = Abort r \<Longrightarrow> fst r = StatusUnauthorized"
  by (auto simp: AuthRequired_def Let_def split: if_splits sum.splits option.splits)

subsection \<open>Hex digits\<close>

lemma fromHexChar_hextable: "n < 16 \<Longrightarrow> fromHexChar (hextable ! n) = Some (of_nat n)"
proof -
  assume "n < 16"
  then have "n \<in> {0, 1, 2, 3, 4, 5, 6, 7, 8, 9, 10, 11, 12, 13, 14, 15}"
    by simp arith
  then show ?thesis
    by (auto simp: hextable_def fromHexChar_def)
qed

lemma high_nibble_bound: "unat (drop_bit 4 (v :: 8 word)) < 16"
proof -
  have "unat (drop_bit 4 v) = unat v div 16"
    by (simp add: unat_drop_bit_eq drop_bit_eq_div unat_div)
  moreover have "unat v < 256" using unsigned_less [of v, where ?'a = nat] by simp
  ultimately show ?thesis by simp
qed

lemma low_nibble_bound: "unat ((v :: 8 word) AND 0x0f) < 16"
proof -
  have "(15 :: 8 word) = mask 4" by (simp add: mask_eq_exp_minus_1)
  then have "unat (v AND 15) = unat (take_bit 4 v)" by (simp add: take_bit_eq_mask)
  also have "\<dots> = take_bit 4 (unat v)" by (simp add: unsigned_take_bit_eq)
  also have "\<dots> < 2 ^ 4" by (rule take_bit_nat_less_exp)
  finally show ?thesis by simp
qed

lemma nibbles_join: "push_bit 4 (drop_bit 4 v) OR (v AND 0x0f) = (v :: 8 word)"
proof -
  have "(15 :: 8 word) = mask 4" by (simp add: mask_eq_exp_minus_1)
  then have "v AND 15 = take_bit 4 v" by (simp add: take_bit_eq_mask)
  then show ?thesis
    by (simp add: bit_eq_iff bit_simps) (auto simp: bit_simps)
qed

lemma hex_roundtrip: "hex_Decode (hex_Encode bs) = Some bs"
proof (induction bs)
  case Nil
  then show ?case by simp
next
  case (Cons v vs)
  have h: "fromHexChar (hextable ! unat (drop_bit 4 v)) = Some (drop_bit 4 v)"
    using fromHexChar_hextable [OF high_nibble_bound [of v]] by simp
  have l: "fromHexChar (hextable ! unat (v AND 0x0f)) = Some (v AND 0x0f)"
    using fromHexChar_hextable [OF low_nibble_bound [of v]] by simp
  show ?case using Cons.IH h l nibbles_join [of v] by simp
qed

lemma hex_Encode_length: "length (hex_Encode bs) = 2 * length bs"
  by (induction bs) auto

lemma ObjectID_roundtrip: "length oid = 12 \<Longrightarrow> ObjectIDFromHex (Hex oid) = Some oid"
  by (simp add: ObjectIDFromHex_def Hex_def hex_Encode_length hex_roundtrip)

subsection \<open>Issuing and verifying tokens\<close>

lemma sint_Hour: "sint Hour = 3600000000000"
  by (simp add: Hour_def)

lemma hours_no_overflow:
  assumes "0 < sint (h :: 64 word)" and "sint h \<le> 2562047"
  shows "sint (h * Hour) = sint h * 3600000000000"
proof -
  have m: "sint (h * Hour) = signed_take_bit 63 (sint h * 3600000000000)"
    by (simp add: sint_word_ariths sint_Hour)
  have lo: "- (2 ^ 63) \<le> sint h * 3600000000000"
    using assms(1) by simp
  have "sint h * 3600000000000 \<le> 2562047 * 3600000000000"
    using assms(2) by simp
  then have hi: "sint h * 3600000000000 < 2 ^ 63"
    by simp
  from lo hi show ?thesis
    unfolding m by (simp add: signed_take_bit_int_eq_self)
qed

lemma NewNumericDate_add_seconds:
  "NewNumericDate (t + k * 3600000000000) = NewNumericDate t + k * 3600000000000"
proof -
  have "(t + (k * 3600) * 1000000000) mod 1000000000 = t mod 1000000000"
    by (rule mod_mult_self1)
  moreover have "(k * 3600) * 1000000000 = k * 3600000000000" by simp
  ultimately have "(t + k * 3600000000000) mod 1000000000 = t mod 1000000000"
    by (simp only:)
  then show ?thesis by (simp only: NewNumericDate_def)
qed

lemma GenerateToken_eq:
  "GenerateToken lib secret now1 now2 userID expiryHours =
     Inr (encode lib
       (''HS256'',
        \<lparr> c_UserID = Hex userID,
          c_ExpiresAt = Some (NewNumericDate (now1 + sint (expiryHours * Hour))),
          c_NotBefore = None, c_IssuedAt = Some (NewNumericDate now2) \<rparr>,
        hmac lib ''HS256'' secret
          (''HS256'',
           \<lparr> c_UserID = Hex userID,
             c_ExpiresAt = Some (NewNumericDate (now1 + sint (expiryHours * Hour))),
             c_NotBefore = None, c_IssuedAt = Some (NewNumericDate now2) \<rparr>)))"
  by (simp add: GenerateToken_def SignedString_def SigningMethodHS256_def Time_Add_def Let_def)

lemma GetSigningMethod_HS:
  "alg \<in> {''HS256'', ''HS384'', ''HS512''} \<Longrightarrow> GetSigningMethod alg = Some (SigningMethodHMAC alg)"
  by (simp add: GetSigningMethod_def)

lemma GetSigningMethod_other:
  assumes "alg \<notin> {''HS256'', ''HS384'', ''HS512''}"
  shows "GetSigningMethod alg \<noteq> Some (SigningMethodHMAC n)"
  using assms by (simp add: GetSigningMethod_def)

lemma ParseWithClaims_HMAC:
  assumes "decode lib tok = Some (alg, claims, sig)"
    and "alg \<in> {''HS256'', ''HS384'', ''HS512''}"
  shows "ParseWithClaims lib tok (keyFunc secret) now =
     (if sig \<noteq> hmac lib alg secret (alg, claims) then Inl ErrTokenSignatureInvalid
      else (case Validate claims now of
              Some err \<Rightarrow> Inl err
            | None \<Rightarrow> Inr \<lparr> t_Method = SigningMethodHMAC alg, t_Claims = claims,
                            t_Signature = sig, t_Valid = True \<rparr>))"
proof -
  have g: "GetSigningMethod alg = Some (SigningMethodHMAC alg)"
    using assms(2) by (rule GetSigningMethod_HS)
  show ?thesis
    by (simp add: ParseWithClaims_def keyFunc_def Let_def assms(1) g split: option.splits)
qed

lemma keyFunc_not_HMAC:
  assumes "\<And>n. m \<noteq> SigningMethodHMAC n"
  shows "keyFunc secret \<lparr> t_Method = m, t_Claims = claims, t_Signature = sig,
      t_Valid = False \<rparr> = Inl ''unexpected signing method''"
proof (cases m)
  case (SigningMethodHMAC n)
  with assms show ?thesis by blast
qed (simp_all add: keyFunc_def)

lemma ParseWithClaims_not_HMAC:
  assumes "decode lib tok = Some (alg, claims, sig)"
    and "alg \<notin> {''HS256'', ''HS384'', ''HS512''}"
  shows "ParseWithClaims lib tok (keyFunc secret) now = Inl ErrTokenUnverifiable"
proof (cases "GetSigningMethod alg")
  case None
  then show ?thesis by (simp add: ParseWithClaims_def assms(1))
next
  case (Some m)
  have "m \<noteq> SigningMethodHMAC n" for n
    using GetSigningMethod_other [OF assms(2), of n] Some by simp
  then have "keyFunc secret \<lparr> t_Method = m, t_Claims = claims, t_Signature = sig,
      t_Valid = False \<rparr> = Inl ''unexpected signing method''"
    by (rule keyFunc_not_HMAC)
  then show ?thesis by (simp add: ParseWithClaims_def Let_def assms(1) Some)
qed

text \<open>
  C3, for a lifetime of at most 2562047 hours (the largest whose nanoseconds fit a 64-bit
  \<open>time.Duration\<close>). The token carries \<open>IssuedAt\<close>, the second clock read cut to whole
  seconds, and \<open>ExpiresAt\<close>, the first clock read cut to whole seconds plus the lifetime.
  Presented as \<open>Bearer\<close> token, it yields the identity at every instant before
  \<open>ExpiresAt\<close> and 401 at \<open>ExpiresAt\<close> and after. The token string has no space and the
  library reads back what it wrote.
\<close>

theorem C3_issue_then_verify:
  assumes "length userID = 12"
    and "0 < sint expiryHours" and "sint expiryHours \<le> 2562047"
    and "GenerateToken lib secret now1 now2 userID expiryHours = Inr tokenString"
    and "CHR '' '' \<notin> set tokenString"
    and "\<forall>t. encode lib t = tokenString \<longrightarrow> decode lib tokenString = Some t"
  shows "\<exists>claims sig. decode lib tokenString = Some (''HS256'', claims, sig)
      \<and> c_IssuedAt claims = Some (NewNumericDate now2)
      \<and> c_ExpiresAt claims = Some (NewNumericDate now1 + sint expiryHours * 3600000000000)
      \<and> AuthRequired lib secret now (''Bearer '' @ tokenString) =
          (if now < NewNumericDate now1 + sint expiryHours * 3600000000000 then Next userID
           else Abort (StatusUnauthorized, H_error ''Invalid or expired token''))"
proof -
  define expires where "expires = NewNumericDate now1 + sint expiryHours * 3600000000000"
  define claims where "claims = \<lparr> c_UserID = Hex userID, c_ExpiresAt = Some expires,
      c_NotBefore = None, c_IssuedAt = Some (NewNumericDate now2) \<rparr>"
  define sig where "sig = hmac lib ''HS256'' secret (''HS256'', claims)"
  have e: "NewNumericDate (now1 + sint (expiryHours * Hour)) = expires"
    by (simp add: hours_no_overflow [OF assms(2,3)] NewNumericDate_add_seconds expires_def)
  have "encode lib (''HS256'', claims, sig) = tokenString"
    using assms(4) by (simp add: GenerateToken_eq e claims_def sig_def)
  with assms(6) have d: "decode lib tokenString = Some (''HS256'', claims, sig)"
    by blast
  have sp: "strings_Split (''Bearer '' @ tokenString) (CHR '' '') = [''Bearer'', tokenString]"
    using assms(5) by (simp add: Split_Bearer)
  have p: "ParseWithClaims lib tokenString (keyFunc secret) now =
      (if now < expires
       then Inr \<lparr> t_Method = SigningMethodHMAC ''HS256'', t_Claims = claims,
                  t_Signature = sig, t_Valid = True \<rparr>
       else Inl ErrTokenExpired)"
  proof -
    have v: "Validate claims now = (if now < expires then None else Some ErrTokenExpired)"
      by (simp add: Validate_def claims_def)
    show ?thesis
      by (simp add: ParseWithClaims_HMAC [OF d] sig_def v)
  qed
  have "AuthRequired lib secret now (''Bearer '' @ tokenString) =
      (if now < expires then Next userID
       else Abort (StatusUnauthorized, H_error ''Invalid or expired token''))"
  proof -
    have "ObjectIDFromHex (c_UserID claims) = Some userID"
      by (simp add: claims_def ObjectID_roundtrip [OF assms(1)])
    then show ?thesis
      unfolding AuthRequired_Bearer [OF sp] p by simp
  qed
  with d show ?thesis
    by (simp add: claims_def expires_def)
qed

subsection \<open>The example tokens\<close>

lemma Hex_alice: "Hex alice = ''a1a1a1a1a1a1a1a1a1a1a1a1''"
  by (simp add: Hex_def alice_def hextable_def)

lemma gen24: "GenerateToken (example_jwt ''h.c.s'' token_24h) ''secret'' 500 900 alice 24 = Inr ''h.c.s''"
  by (simp add: GenerateToken_eq Hex_alice example_jwt_def token_24h_def claims_24h_def
      NewNumericDate_def Hour_def)

lemma gen_overflow:
  "GenerateToken (example_jwt ''h.c.s'' token_overflow) ''secret'' 0 0 alice 2562048 = Inr ''h.c.s''"
  by (simp add: GenerateToken_eq Hex_alice example_jwt_def token_overflow_def claims_overflow_def
      NewNumericDate_def Hour_def)

lemma alice_from_hex: "ObjectIDFromHex ''a1a1a1a1a1a1a1a1a1a1a1a1'' = Some alice"
  by (simp add: ObjectIDFromHex_def alice_def fromHexChar_def)

lemma split_example: "strings_Split ''Bearer h.c.s'' (CHR '' '') = [''Bearer'', ''h.c.s'']"
  by (simp add: strings_Split_def)

lemma accept_24h:
  "AuthRequired (example_jwt ''h.c.s'' token_24h) ''secret'' 1 ''Bearer h.c.s'' = Next alice"
proof -
  have d: "decode (example_jwt ''h.c.s'' token_24h) ''h.c.s''
      = Some (''HS256'', claims_24h, example_hmac ''HS256'' ''secret'' (''HS256'', claims_24h))"
    by (simp add: example_jwt_def token_24h_def)
  have h: "hmac (example_jwt ''h.c.s'' token_24h) = example_hmac"
    by (simp add: example_jwt_def)
  have v: "Validate claims_24h 1 = None"
    by (simp add: Validate_def claims_24h_def)
  have u: "ObjectIDFromHex (c_UserID claims_24h) = Some alice"
    by (simp add: claims_24h_def alice_from_hex)
  show ?thesis
    unfolding AuthRequired_Bearer [OF split_example]
    by (simp add: ParseWithClaims_HMAC [OF d] h v u)
qed

theorem C3_witness:
  "AuthRequired (example_jwt ''h.c.s'' token_24h) ''secret'' 86399999999999 ''Bearer h.c.s''
     = Next alice
   \<and> AuthRequired (example_jwt ''h.c.s'' token_24h) ''secret'' 86400000000000 ''Bearer h.c.s''
     = Abort (StatusUnauthorized, H_error ''Invalid or expired token'')"
proof -
  have 1: "length alice = 12" by (simp add: alice_def)
  have 2: "0 < sint (24 :: 64 word)" and 3: "sint (24 :: 64 word) \<le> 2562047" by simp_all
  have 4: "GenerateToken (example_jwt ''h.c.s'' token_24h) ''secret'' 500 900 alice 24
      = Inr ''h.c.s''"
    by (rule gen24)
  have 5: "CHR '' '' \<notin> set ''h.c.s''" by simp
  have 6: "\<forall>t. encode (example_jwt ''h.c.s'' token_24h) t = ''h.c.s'' \<longrightarrow>
      decode (example_jwt ''h.c.s'' token_24h) ''h.c.s'' = Some t"
    by (simp add: example_jwt_def)
  have e: "NewNumericDate 500 + sint (24 :: 64 word) * 3600000000000 = 86400000000000"
    by (simp add: NewNumericDate_def)
  from C3_issue_then_verify [OF 1 2 3 4 5 6, of 86399999999999]
       C3_issue_then_verify [OF 1 2 3 4 5 6, of 86400000000000]
  show ?thesis unfolding e by auto
qed

text \<open>
  A lifetime of 2562048 hours overflows the duration: the token issued at instant 0
  expires in the past and is refused at instant 0, long before \<open>IssuedAt\<close> plus the
  lifetime.
\<close>

theorem C3_counterexample:
  "0 < sint (2562048 :: 64 word)
   \<and> GenerateToken (example_jwt ''h.c.s'' token_overflow) ''secret'' 0 0 alice 2562048
       = Inr ''h.c.s''
   \<and> decode (example_jwt ''h.c.s'' token_overflow) ''h.c.s''
       = Some (''HS256'', claims_overflow, example_hmac ''HS256'' ''secret'' (''HS256'', claims_overflow))
   \<and> c_IssuedAt claims_overflow = Some 0
   \<and> (0 :: int) < 0 + 2562048 * 3600000000000
   \<and> AuthRequired (example_jwt ''h.c.s'' token_overflow) ''secret'' 0 ''Bearer h.c.s''
       = Abort (StatusUnauthorized, H_error ''Invalid or expired token'')"
proof -
  have d: "decode (example_jwt ''h.c.s'' token_overflow) ''h.c.s''
      = Some (''HS256'', claims_overflow,
              example_hmac ''HS256'' ''secret'' (''HS256'', claims_overflow))"
    by (simp add: example_jwt_def token_overflow_def)
  have h: "hmac (example_jwt ''h.c.s'' token_overflow) = example_hmac"
    by (simp add: example_jwt_def)
  have v: "Validate claims_overflow 0 = Some ErrTokenExpired"
    by (simp add: Validate_def claims_overflow_def)
  have "AuthRequired (example_jwt ''h.c.s'' token_overflow) ''secret'' 0 ''Bearer h.c.s''
       = Abort (StatusUnauthorized, H_error ''Invalid or expired token'')"
    unfolding AuthRequired_Bearer [OF split_example]
    by (simp add: ParseWithClaims_HMAC [OF d] h v)
  with d gen_overflow show ?thesis by (simp add: claims_overflow_def)
qed

subsection \<open>Which tokens pass\<close>

lemma ParseWithClaims_Inr:
  assumes "ParseWithClaims lib tok (keyFunc secret) now = Inr token"
  shows "\<exists>alg claims sig. decode lib tok = Some (alg, claims, sig)
      \<and> alg \<in> {''HS256'', ''HS384'', ''HS512''} \<and> sig = hmac lib alg secret (alg, claims)
      \<and> Validate claims now = None \<and> t_Claims token = claims \<and> t_Valid token"
proof (cases "decode lib tok")
  case None
  with assms show ?thesis by (simp add: ParseWithClaims_def)
next
  case (Some t)
  obtain alg claims sig where t: "t = (alg, claims, sig)" by (cases t)
  with Some have d: "decode lib tok = Some (alg, claims, sig)" by simp
  show ?thesis
  proof (cases "alg \<in> {''HS256'', ''HS384'', ''HS512''}")
    case False
    from ParseWithClaims_not_HMAC [OF d False, of secret now] assms show ?thesis by simp
  next
    case True
    from assms have "sig = hmac lib alg secret (alg, claims) \<and> Validate claims now = None
        \<and> t_Claims token = claims \<and> t_Valid token"
      unfolding ParseWithClaims_HMAC [OF d True]
      by (auto split: if_splits option.splits)
    with d True show ?thesis by blast
  qed
qed

lemma AuthRequired_Next_iff:
  "AuthRequired lib secret now h = Next userID \<longleftrightarrow>
      (\<exists>tok token. strings_Split h (CHR '' '') = [''Bearer'', tok]
         \<and> ParseWithClaims lib tok (keyFunc secret) now = Inr token
         \<and> ObjectIDFromHex (c_UserID (t_Claims token)) = Some userID)"
proof
  assume ok: "AuthRequired lib secret now h = Next userID"
  have "\<exists>tok. strings_Split h (CHR '' '') = [''Bearer'', tok]"
  proof (rule ccontr)
    assume "\<not> (\<exists>tok. strings_Split h (CHR '' '') = [''Bearer'', tok])"
    from AuthRequired_bad_shape [OF this, of lib secret now] ok show False by auto
  qed
  then obtain tok where sp: "strings_Split h (CHR '' '') = [''Bearer'', tok]" ..
  from ok show "\<exists>tok token. strings_Split h (CHR '' '') = [''Bearer'', tok]
       \<and> ParseWithClaims lib tok (keyFunc secret) now = Inr token
       \<and> ObjectIDFromHex (c_UserID (t_Claims token)) = Some userID"
    unfolding AuthRequired_Bearer [OF sp] using sp
    by (auto split: sum.splits if_splits option.splits)
next
  assume "\<exists>tok token. strings_Split h (CHR '' '') = [''Bearer'', tok]
       \<and> ParseWithClaims lib tok (keyFunc secret) now = Inr token
       \<and> ObjectIDFromHex (c_UserID (t_Claims token)) = Some userID"
  then obtain tok token where sp: "strings_Split h (CHR '' '') = [''Bearer'', tok]"
    and p: "ParseWithClaims lib tok (keyFunc secret) now = Inr token"
    and u: "ObjectIDFromHex (c_UserID (t_Claims token)) = Some userID"
    by blast
  from ParseWithClaims_Inr [OF p] have "t_Valid token" by blast
  with p u show "AuthRequired lib secret now h = Next userID"
    by (simp add: AuthRequired_Bearer [OF sp])
qed

text \<open>
  C4. The middleware lets a request pass with an identity exactly when the header splits
  at its spaces into \<open>Bearer\<close> and one token, and that token parses, verifies and carries
  the hex form of the identity. Every request it stops gets status 401; a header that is
  not \<open>Bearer\<close>, one space and a token without spaces is always stopped.
\<close>

theorem C4_bearer_shape:
  "(AuthRequired lib secret now h = Next userID \<longleftrightarrow>
      (\<exists>tok token. strings_Split h (CHR '' '') = [''Bearer'', tok]
         \<and> ParseWithClaims lib tok (keyFunc secret) now = Inr token
         \<and> ObjectIDFromHex (c_UserID (t_Claims token)) = Some userID))
   \<and> (\<forall>r. AuthRequired lib secret now h = Abort r \<longrightarrow> fst r = StatusUnauthorized)
   \<and> (strings_Split h (CHR '' '') = [''Bearer'', tok] \<longleftrightarrow>
        h = ''Bearer '' @ tok \<and> CHR '' '' \<notin> set tok)
   \<and> (\<not> (\<exists>tok. h = ''Bearer '' @ tok \<and> CHR '' '' \<notin> set tok) \<longrightarrow>
        (\<exists>msg. AuthRequired lib secret now h = Abort (StatusUnauthorized, H_error msg)))"
proof (intro conjI)
  show "AuthRequired lib secret now h = Next userID \<longleftrightarrow>
      (\<exists>tok token. strings_Split h (CHR '' '') = [''Bearer'', tok]
         \<and> ParseWithClaims lib tok (keyFunc secret) now = Inr token
         \<and> ObjectIDFromHex (c_UserID (t_Claims token)) = Some userID)"
    by (rule AuthRequired_Next_iff)
next
  show "\<forall>r. AuthRequired lib secret now h = Abort r \<longrightarrow> fst r = StatusUnauthorized"
    by (auto dest: AuthRequired_Abort_status)
next
  show "strings_Split h (CHR '' '') = [''Bearer'', tok] \<longleftrightarrow>
        h = ''Bearer '' @ tok \<and> CHR '' '' \<notin> set tok"
    by (rule Split_Bearer)
next
  show "\<not> (\<exists>tok. h = ''Bearer '' @ tok \<and> CHR '' '' \<notin> set tok) \<longrightarrow>
        (\<exists>msg. AuthRequired lib secret now h = Abort (StatusUnauthorized, H_error msg))"
    using AuthRequired_bad_shape [of h lib secret now] by (simp only: Split_Bearer) blast
qed

theorem C4_witness:
  "AuthRequired (example_jwt ''h.c.s'' token_24h) ''secret'' 1 ''Bearer h.c.s'' = Next alice
   \<and> (\<exists>msg. AuthRequired (example_jwt ''h.c.s'' token_24h) ''secret'' 1 ''bearer h.c.s''
          = Abort (StatusUnauthorized, H_error msg))
   \<and> (\<exists>msg. AuthRequired (example_jwt ''h.c.s'' token_24h) ''secret'' 1 ''h.c.s''
          = Abort (StatusUnauthorized, H_error msg))
   \<and> (\<exists>msg. AuthRequired (example_jwt ''h.c.s'' token_24h) ''secret'' 1 ''Bearer h.c.s x''
          = Abort (StatusUnauthorized, H_error msg))
   \<and> (\<exists>msg. AuthRequired (example_jwt ''h.c.s'' token_24h) ''secret'' 1 []
          = Abort (StatusUnauthorized, H_error msg))"
proof -
  have d: "decode (example_jwt ''h.c.s'' token_24h) ''h.c.s''
      = Some (''HS256'', claims_24h, example_hmac ''HS256'' ''secret'' (''HS256'', claims_24h))"
    by (simp add: example_jwt_def token_24h_def)
  have h: "hmac (example_jwt ''h.c.s'' token_24h) = example_hmac"
    by (simp add: example_jwt_def)
  have v: "Validate claims_24h 1 = None"
    by (simp add: Validate_def claims_24h_def)
  have p: "ParseWithClaims (example_jwt ''h.c.s'' token_24h) ''h.c.s'' (keyFunc ''secret'') 1
      = Inr \<lparr> t_Method = SigningMethodHMAC ''HS256'', t_Claims = claims_24h,
               t_Signature = example_hmac ''HS256'' ''secret'' (''HS256'', claims_24h),
               t_Valid = True \<rparr>"
    by (simp add: ParseWithClaims_HMAC [OF d] h v)
  have u: "ObjectIDFromHex (c_UserID claims_24h) = Some alice"
    by (simp add: claims_24h_def alice_from_hex)
  have ex: "\<exists>tok token. strings_Split ''Bearer h.c.s'' (CHR '' '') = [''Bearer'', tok]
      \<and> ParseWithClaims (example_jwt ''h.c.s'' token_24h) tok (keyFunc ''secret'') 1 = Inr token
      \<and> ObjectIDFromHex (c_UserID (t_Claims token)) = Some alice"
    using split_example p u by simp
  have ok: "AuthRequired (example_jwt ''h.c.s'' token_24h) ''secret'' 1 ''Bearer h.c.s'' = Next alice"
    using C4_bearer_shape [where lib = "example_jwt ''h.c.s'' token_24h" and secret = "''secret''"
        and now = 1 and h = "''Bearer h.c.s''" and userID = alice and tok = "[]"]
      ex by blast
  have b1: "\<not> (\<exists>tok. ''bearer h.c.s'' = ''Bearer '' @ tok \<and> CHR '' '' \<notin> set tok)" by simp
  have x1: "\<exists>msg. AuthRequired (example_jwt ''h.c.s'' token_24h) ''secret'' 1 ''bearer h.c.s''
          = Abort (StatusUnauthorized, H_error msg)"
    using C4_bearer_shape [where lib = "example_jwt ''h.c.s'' token_24h" and secret = "''secret''"
        and now = 1 and h = "''bearer h.c.s''" and userID = alice and tok = "[]"] b1
    by blast
  have b2: "\<not> (\<exists>tok. ''h.c.s'' = ''Bearer '' @ tok \<and> CHR '' '' \<notin> set tok)" by simp
  have x2: "\<exists>msg. AuthRequired (example_jwt ''h.c.s'' token_24h) ''secret'' 1 ''h.c.s''
          = Abort (StatusUnauthorized, H_error msg)"
    using C4_bearer_shape [where lib = "example_jwt ''h.c.s'' token_24h" and secret = "''secret''"
        and now = 1 and h = "''h.c.s''" and userID = alice and tok = "[]"] b2
    by blast
  have b3: "\<not> (\<exists>tok. ''Bearer h.c.s x'' = ''Bearer '' @ tok \<and> CHR '' '' \<notin> set tok)" by auto
  have x3: "\<exists>msg. AuthRequired (example_jwt ''h.c.s'' token_24h) ''secret'' 1 ''Bearer h.c.s x''
          = Abort (StatusUnauthorized, H_error msg)"
    using C4_bearer_shape [where lib = "example_jwt ''h.c.s'' token_24h" and secret = "''secret''"
        and now = 1 and h = "''Bearer h.c.s x''" and userID = alice and tok = "[]"] b3
    by blast
  have b4: "\<not> (\<exists>tok. [] = ''Bearer '' @ tok \<and> CHR '' '' \<notin> set tok)" by simp
  have x4: "\<exists>msg. AuthRequired (example_jwt ''h.c.s'' token_24h) ''secret'' 1 []
          = Abort (StatusUnauthorized, H_error msg)"
    using C4_bearer_shape [where lib = "example_jwt ''h.c.s'' token_24h" and secret = "''secret''"
        and now = 1 and h = "[]" and userID = alice and tok = "[]"] b4
    by blast
  from ok x1 x2 x3 x4 show ?thesis by blast
qed

text \<open>
  C8, for the family of HMAC algorithms. A token is accepted only if its header declares
  \<open>HS256\<close>, \<open>HS384\<close> or \<open>HS512\<close> and its signature is the MAC of that algorithm under the
  server's secret; a token that declares any other algorithm is answered 401, whatever
  its signature.
\<close>

theorem C8_only_HMAC_family:
  "(AuthRequired lib secret now h = Next userID \<longrightarrow>
      (\<exists>tok alg claims sig. h = ''Bearer '' @ tok \<and> decode lib tok = Some (alg, claims, sig)
         \<and> alg \<in> {''HS256'', ''HS384'', ''HS512''}
         \<and> sig = hmac lib alg secret (alg, claims)))
   \<and> (strings_Split h (CHR '' '') = [''Bearer'', tok] \<and> decode lib tok = Some (alg, claims, sig)
        \<and> alg \<notin> {''HS256'', ''HS384'', ''HS512''} \<longrightarrow>
      AuthRequired lib secret now h
        = Abort (StatusUnauthorized, H_error ''Invalid or expired token''))"
proof (intro conjI impI)
  assume "AuthRequired lib secret now h = Next userID"
  then obtain tok token where sp: "strings_Split h (CHR '' '') = [''Bearer'', tok]"
    and p: "ParseWithClaims lib tok (keyFunc secret) now = Inr token"
    unfolding AuthRequired_Next_iff by blast
  from sp have "h = ''Bearer '' @ tok" by (simp only: Split_Bearer)
  with ParseWithClaims_Inr [OF p]
  show "\<exists>tok alg claims sig. h = ''Bearer '' @ tok \<and> decode lib tok = Some (alg, claims, sig)
         \<and> alg \<in> {''HS256'', ''HS384'', ''HS512''}
         \<and> sig = hmac lib alg secret (alg, claims)"
    by blast
next
  assume a: "strings_Split h (CHR '' '') = [''Bearer'', tok] \<and> decode lib tok = Some (alg, claims, sig)
        \<and> alg \<notin> {''HS256'', ''HS384'', ''HS512''}"
  then have sp: "strings_Split h (CHR '' '') = [''Bearer'', tok]"
    and d: "decode lib tok = Some (alg, claims, sig)"
    and n: "alg \<notin> {''HS256'', ''HS384'', ''HS512''}"
    by blast+
  show "AuthRequired lib secret now h
        = Abort (StatusUnauthorized, H_error ''Invalid or expired token'')"
    unfolding AuthRequired_Bearer [OF sp] ParseWithClaims_not_HMAC [OF d n] by simp
qed

theorem C8_witness:
  "(\<exists>tok alg claims sig. ''Bearer h.c.s'' = ''Bearer '' @ tok
      \<and> decode (example_jwt ''h.c.s'' token_24h) tok = Some (alg, claims, sig)
      \<and> alg \<in> {''HS256'', ''HS384'', ''HS512''}
      \<and> sig = hmac (example_jwt ''h.c.s'' token_24h) alg ''secret'' (alg, claims))
   \<and> AuthRequired (example_jwt ''h.c.'' token_none) ''secret'' 1 ''Bearer h.c.''
     = Abort (StatusUnauthorized, H_error ''Invalid or expired token'')"
proof -
  have sp: "strings_Split ''Bearer h.c.'' (CHR '' '') = [''Bearer'', ''h.c.'']"
    by (simp add: strings_Split_def)
  have d: "decode (example_jwt ''h.c.'' token_none) ''h.c.'' = Some (''none'', claims_24h, [])"
    by (simp add: example_jwt_def token_none_def)
  have n: "''none'' \<notin> {''HS256'', ''HS384'', ''HS512''}" by simp
  have 1: "\<exists>tok alg claims sig. ''Bearer h.c.s'' = ''Bearer '' @ tok
      \<and> decode (example_jwt ''h.c.s'' token_24h) tok = Some (alg, claims, sig)
      \<and> alg \<in> {''HS256'', ''HS384'', ''HS512''}
      \<and> sig = hmac (example_jwt ''h.c.s'' token_24h) alg ''secret'' (alg, claims)"
    using C8_only_HMAC_family [where lib = "example_jwt ''h.c.s'' token_24h"
        and secret = "''secret''" and now = 1 and h = "''Bearer h.c.s''" and userID = alice
        and tok = "[]" and alg = "[]" and claims = claims_24h and sig = "[]"]
      accept_24h by blast
  have 2: "AuthRequired (example_jwt ''h.c.'' token_none) ''secret'' 1 ''Bearer h.c.''
     = Abort (StatusUnauthorized, H_error ''Invalid or expired token'')"
    using C8_only_HMAC_family [where lib = "example_jwt ''h.c.'' token_none"
        and secret = "''secret''" and now = 1 and h = "''Bearer h.c.''" and userID = alice
        and tok = "''h.c.''" and alg = "''none''" and claims = claims_24h and sig = "[]"]
      sp d n by blast
  from 1 2 show ?thesis by (rule conjI)
qed

text \<open>
  A token that declares \<open>HS384\<close>, not the \<open>HS256\<close> that \<open>GenerateToken\<close> signs with, and
  carries the \<open>HS384\<close> MAC under the server's secret is accepted.
\<close>

theorem C8_counterexample:
  "decode (example_jwt ''h.c.s'' token_hs384) ''h.c.s''
     = Some (''HS384'', claims_24h, example_hmac ''HS384'' ''secret'' (''HS384'', claims_24h))
   \<and> ''HS384'' \<noteq> Alg SigningMethodHS256
   \<and> AuthRequired (example_jwt ''h.c.s'' token_hs384) ''secret'' 1 ''Bearer h.c.s'' = Next alice"
proof -
  have d: "decode (example_jwt ''h.c.s'' token_hs384) ''h.c.s''
      = Some (''HS384'', claims_24h, example_hmac ''HS384'' ''secret'' (''HS384'', claims_24h))"
    by (simp add: example_jwt_def token_hs384_def)
  have h: "hmac (example_jwt ''h.c.s'' token_hs384) = example_hmac"
    by (simp add: example_jwt_def)
  have v: "Validate claims_24h 1 = None"
    by (simp add: Validate_def claims_24h_def)
  have u: "ObjectIDFromHex (c_UserID claims_24h) = Some alice"
    by (simp add: claims_24h_def alice_from_hex)
  have "AuthRequired (example_jwt ''h.c.s'' token_hs384) ''secret'' 1 ''Bearer h.c.s'' = Next alice"
    unfolding AuthRequired_Bearer [OF split_example]
    by (simp add: ParseWithClaims_HMAC [OF d] h v u)
  with d show ?thesis by (simp add: SigningMethodHS256_def)
qed

section \<open>Properties of the goal handlers\<close>

subsection \<open>The update document\<close>

lemma UpdateGoal_update_dom:
  "dom (UpdateGoal_update now req)
     \<subseteq> {''title'', ''description'', ''startDate'', ''endDate'', ''completed'', ''updatedAt''}"
  by (auto simp: UpdateGoal_update_def Let_def split: if_splits option.splits)

lemma apply_set_frame:
  assumes "dom u \<subseteq> {''title'', ''description'', ''startDate'', ''endDate'', ''completed'', ''updatedAt''}"
  shows "ID (apply_set u g) = ID g \<and> UserID (apply_set u g) = UserID g
       \<and> SubTasks (apply_set u g) = SubTasks g \<and> Progress (apply_set u g) = Progress g
       \<and> CreatedAt (apply_set u g) = CreatedAt g"
proof -
  have "u ''userId'' = None" "u ''subTasks'' = None" "u ''progress'' = None" "u ''createdAt'' = None"
    using assms by (auto simp: subset_iff dom_def)
  then show ?thesis by (simp add: apply_set_def)
qed

lemma apply_set_UpdateGoal_update:
  "apply_set (UpdateGoal_update now req) g =
     g\<lparr> Title := (if uq_Title req \<noteq> [] then uq_Title req else Title g),
        Description := (if uq_Description req \<noteq> [] then uq_Description req else Description g),
        StartDate := (if \<not> IsZero (uq_StartDate req) then bson_DateTime (uq_StartDate req)
                      else StartDate g),
        EndDate := (case uq_EndDate req of Some endDate \<Rightarrow> Some (bson_DateTime endDate)
                    | None \<Rightarrow> EndDate g),
        Completed := uq_Completed req,
        UpdatedAt := bson_DateTime now \<rparr>"
  by (simp add: apply_set_def UpdateGoal_update_def Let_def split: option.splits)

subsection \<open>Updating the first match\<close>

lemma find_split:
  "List.find flt ds = Some d \<Longrightarrow>
     \<exists>pre post. ds = pre @ d # post \<and> flt d \<and> (\<forall>e \<in> set pre. \<not> flt e)"
proof (induction ds)
  case Nil
  then show ?case by simp
next
  case (Cons x xs)
  show ?case
  proof (cases "flt x")
    case True
    with Cons.prems have "x = d" by simp
    with True have "x # xs = [] @ d # xs \<and> flt d \<and> (\<forall>e \<in> set []. \<not> flt e)" by simp
    then show ?thesis by blast
  next
    case False
    with Cons.prems have "List.find flt xs = Some d" by simp
    from Cons.IH [OF this] obtain pre post
      where "xs = pre @ d # post" "flt d" "\<forall>e \<in> set pre. \<not> flt e" by blast
    with False have "x # xs = (x # pre) @ d # post \<and> flt d \<and> (\<forall>e \<in> set (x # pre). \<not> flt e)"
      by simp
    then show ?thesis by blast
  qed
qed

lemma update_first_at:
  "\<forall>e \<in> set pre. \<not> flt e \<Longrightarrow> flt d \<Longrightarrow>
     update_first flt f (pre @ d # post) = pre @ f d # post"
  by (induction pre) auto

lemma delete_first_at:
  "\<forall>e \<in> set pre. \<not> flt e \<Longrightarrow> flt d \<Longrightarrow> delete_first flt (pre @ d # post) = pre @ post"
  by (induction pre) auto

lemma find_at:
  "\<forall>e \<in> set pre. \<not> flt e \<Longrightarrow> flt d \<Longrightarrow> List.find flt (pre @ d # post) = Some d"
  by (induction pre) auto

lemma list_ex_find: "list_ex flt ds \<longleftrightarrow> List.find flt ds \<noteq> None"
  by (induction ds) auto

lemma update_first_map:
  "(\<And>d. k (f d) = k d) \<Longrightarrow> map k (update_first flt f ds) = map k ds"
  by (induction ds) auto

lemma delete_first_subset: "set (delete_first flt ds) \<subseteq> set ds"
  by (induction ds) auto

subsection \<open>What a successful UpdateGoal does\<close>

lemma by_id_and_user_apply_set:
  "by_id_and_user goalID userID (apply_set (UpdateGoal_update now req) g)
     = by_id_and_user goalID userID g"
  using apply_set_frame [OF UpdateGoal_update_dom, of now req g]
  by (simp add: by_id_and_user_def)

lemma UpdateGoal_found:
  assumes "ObjectIDFromHex (Param_id c) = Some goalID" and "userId c = Some userID"
    and "ShouldBindJSON c = Inr req"
    and "\<not> unreachable goalCollection"
    and "docs goalCollection = pre @ old # post"
    and "\<forall>e \<in> set pre. \<not> by_id_and_user goalID userID e"
    and "by_id_and_user goalID userID old"
  shows "UpdateGoal goalCollection now c =
     ((StatusOK, GoalJSON (apply_set (UpdateGoal_update now req) old)),
      goalCollection\<lparr>docs := pre @ apply_set (UpdateGoal_update now req) old # post\<rparr>)"
proof -
  let ?flt = "by_id_and_user goalID userID"
  let ?f = "apply_set (UpdateGoal_update now req)"
  have ex: "list_ex ?flt (docs goalCollection)"
    using assms(5,7) by (simp add: list_ex_iff)
  have up: "update_first ?flt ?f (docs goalCollection) = pre @ ?f old # post"
    using assms(5) update_first_at [OF assms(6,7)] by simp
  have "?flt (?f old)"
    using assms(7) by (simp only: by_id_and_user_apply_set)
  with assms(6) have fd: "List.find ?flt (pre @ ?f old # post) = Some (?f old)"
    by (rule find_at)
  have u: "UpdateOne goalCollection ?flt ?f
      = Inr (1, goalCollection\<lparr>docs := pre @ ?f old # post\<rparr>)"
    using assms(4) ex up by (simp add: UpdateOne_def)
  have f: "FindOne (goalCollection\<lparr>docs := pre @ ?f old # post\<rparr>) ?flt = Inr (?f old)"
    using assms(4) fd by (simp add: FindOne_def)
  show ?thesis
    using assms(1,2,3) by (simp add: UpdateGoal_def u f)
qed

lemma UpdateGoal_success:
  assumes "UpdateGoal goalCollection now c = ((StatusOK, body), coll')"
  shows "\<exists>req old pre post. ShouldBindJSON c = Inr req
      \<and> docs goalCollection = pre @ old # post
      \<and> body = GoalJSON (apply_set (UpdateGoal_update now req) old)
      \<and> coll' = goalCollection\<lparr>docs := pre @ apply_set (UpdateGoal_update now req) old # post\<rparr>"
proof -
  from assms obtain goalID where g: "ObjectIDFromHex (Param_id c) = Some goalID"
    by (cases "ObjectIDFromHex (Param_id c)")
       (auto simp: UpdateGoal_def StatusOK_def StatusBadRequest_def)
  from assms g obtain userID where u: "userId c = Some userID"
    by (cases "userId c") (auto simp: UpdateGoal_def StatusOK_def StatusUnauthorized_def)
  from assms g u obtain req where r: "ShouldBindJSON c = Inr req"
    by (cases "ShouldBindJSON c") (auto simp: UpdateGoal_def StatusOK_def StatusBadRequest_def)
  let ?flt = "by_id_and_user goalID userID"
  have nr: "\<not> unreachable goalCollection"
    using assms g u r
    by (auto simp: UpdateGoal_def UpdateOne_def StatusOK_def StatusInternalServerError_def)
  have "list_ex ?flt (docs goalCollection)"
    using assms g u r nr
    by (auto simp: UpdateGoal_def UpdateOne_def StatusOK_def StatusNotFound_def split: if_splits)
  then obtain old where "List.find ?flt (docs goalCollection) = Some old"
    by (auto simp: list_ex_find)
  from find_split [OF this] obtain pre post
    where d: "docs goalCollection = pre @ old # post" and m: "?flt old"
      and p: "\<forall>e \<in> set pre. \<not> ?flt e"
    by blast
  from UpdateGoal_found [OF g u r nr d p m, of now] assms
  have "body = GoalJSON (apply_set (UpdateGoal_update now req) old)
      \<and> coll' = goalCollection\<lparr>docs := pre @ apply_set (UpdateGoal_update now req) old # post\<rparr>"
    by simp
  with r d show ?thesis by blast
qed

subsection \<open>What UpdateGoal writes\<close>

text \<open>
  C5, as the handler has it. A successful \<open>UpdateGoal\<close> replaces exactly one stored goal
  and answers with the goal as it is read back: title, description, start date and end
  date are written when the request has them (non-empty, non-zero, non-nil) and kept
  otherwise; \<open>updatedAt\<close> is set to the current time on every update; id, owner,
  subtasks, progress and creation time are kept; no other goal changes. A date that is
  written is a BSON datetime: the stored and returned instant is the request's, or the
  clock's, cut to the millisecond below. Nothing is said here about \<open>completed\<close>.
\<close>

theorem C5_update_writes:
  assumes "UpdateGoal goalCollection now c = ((StatusOK, body), coll')"
  shows "\<exists>req old pre post goal. ShouldBindJSON c = Inr req
      \<and> docs goalCollection = pre @ old # post
      \<and> docs coll' = pre @ goal # post
      \<and> unreachable coll' = unreachable goalCollection
      \<and> body = GoalJSON goal
      \<and> Title goal = (if uq_Title req \<noteq> [] then uq_Title req else Title old)
      \<and> Description goal
          = (if uq_Description req \<noteq> [] then uq_Description req else Description old)
      \<and> StartDate goal
          = (if \<not> IsZero (uq_StartDate req) then bson_DateTime (uq_StartDate req)
             else StartDate old)
      \<and> EndDate goal
          = (case uq_EndDate req of Some endDate \<Rightarrow> Some (bson_DateTime endDate)
             | None \<Rightarrow> EndDate old)
      \<and> UpdatedAt goal = bson_DateTime now
      \<and> ID goal = ID old \<and> UserID goal = UserID old \<and> SubTasks goal = SubTasks old
      \<and> Progress goal = Progress old \<and> CreatedAt goal = CreatedAt old"
proof -
  from UpdateGoal_success [OF assms] obtain req old pre post
    where r: "ShouldBindJSON c = Inr req" and d: "docs goalCollection = pre @ old # post"
      and b: "body = GoalJSON (apply_set (UpdateGoal_update now req) old)"
      and c: "coll' = goalCollection\<lparr>docs := pre @ apply_set (UpdateGoal_update now req) old # post\<rparr>"
    by blast
  let ?goal = "apply_set (UpdateGoal_update now req) old"
  have "ShouldBindJSON c = Inr req
      \<and> docs goalCollection = pre @ old # post
      \<and> docs coll' = pre @ ?goal # post
      \<and> unreachable coll' = unreachable goalCollection
      \<and> body = GoalJSON ?goal
      \<and> Title ?goal = (if uq_Title req \<noteq> [] then uq_Title req else Title old)
      \<and> Description ?goal
          = (if uq_Description req \<noteq> [] then uq_Description req else Description old)
      \<and> StartDate ?goal
          = (if \<not> IsZero (uq_StartDate req) then bson_DateTime (uq_StartDate req)
             else StartDate old)
      \<and> EndDate ?goal
          = (case uq_EndDate req of Some endDate \<Rightarrow> Some (bson_DateTime endDate)
             | None \<Rightarrow> EndDate old)
      \<and> UpdatedAt ?goal = bson_DateTime now
      \<and> ID ?goal = ID old \<and> UserID ?goal = UserID old \<and> SubTasks ?goal = SubTasks old
      \<and> Progress ?goal = Progress old \<and> CreatedAt ?goal = CreatedAt old"
    using r d b c by (simp add: apply_set_UpdateGoal_update)
  then show ?thesis by blast
qed

lemma update_learn_go:
  "UpdateGoal \<lparr>docs = [learn_go\<lparr>Completed := c0\<rparr>], unreachable = False\<rparr> now
       \<lparr>Param_id = ''010101010101010101010101'', userId = Some alice, ShouldBindJSON = Inr req\<rparr>
     = ((StatusOK, GoalJSON (apply_set (UpdateGoal_update now req) (learn_go\<lparr>Completed := c0\<rparr>))),
        \<lparr>docs = [apply_set (UpdateGoal_update now req) (learn_go\<lparr>Completed := c0\<rparr>)],
         unreachable = False\<rparr>)"
proof -
  have "UpdateGoal \<lparr>docs = [learn_go\<lparr>Completed := c0\<rparr>], unreachable = False\<rparr> now
       \<lparr>Param_id = ''010101010101010101010101'', userId = Some alice, ShouldBindJSON = Inr req\<rparr>
     = ((StatusOK, GoalJSON (apply_set (UpdateGoal_update now req) (learn_go\<lparr>Completed := c0\<rparr>))),
        \<lparr>docs = [learn_go\<lparr>Completed := c0\<rparr>], unreachable = False\<rparr>
        \<lparr>docs := [] @ apply_set (UpdateGoal_update now req) (learn_go\<lparr>Completed := c0\<rparr>) # []\<rparr>)"
    by (rule UpdateGoal_found [where goalID = goal1 and userID = alice])
       (simp_all add: goal1_hex by_id_and_user_def learn_go_def)
  then show ?thesis by simp
qed

theorem C5_witness:
  "\<exists>req old pre post goal.
        ShouldBindJSON \<lparr>Param_id = ''010101010101010101010101'', userId = Some alice,
          ShouldBindJSON = Inr reschedule_request\<rparr> = Inr req
      \<and> docs \<lparr>docs = [learn_go], unreachable = False\<rparr> = pre @ old # post
      \<and> docs \<lparr>docs = [learn_go\<lparr>StartDate := 1000000000, EndDate := Some 2000000000,
                                UpdatedAt := 7123000000\<rparr>], unreachable = False\<rparr>
          = pre @ goal # post
      \<and> unreachable \<lparr>docs = [learn_go\<lparr>StartDate := 1000000000, EndDate := Some 2000000000,
                                UpdatedAt := 7123000000\<rparr>], unreachable = False\<rparr>
          = unreachable \<lparr>docs = [learn_go], unreachable = False\<rparr>
      \<and> GoalJSON (learn_go\<lparr>StartDate := 1000000000, EndDate := Some 2000000000,
                             UpdatedAt := 7123000000\<rparr>) = GoalJSON goal
      \<and> Title goal = (if uq_Title req \<noteq> [] then uq_Title req else Title old)
      \<and> Description goal
          = (if uq_Description req \<noteq> [] then uq_Description req else Description old)
      \<and> StartDate goal
          = (if \<not> IsZero (uq_StartDate req) then bson_DateTime (uq_StartDate req)
             else StartDate old)
      \<and> EndDate goal
          = (case uq_EndDate req of Some endDate \<Rightarrow> Some (bson_DateTime endDate)
             | None \<Rightarrow> EndDate old)
      \<and> UpdatedAt goal = bson_DateTime 7123456789
      \<and> ID goal = ID old \<and> UserID goal = UserID old \<and> SubTasks goal = SubTasks old
      \<and> Progress goal = Progress old \<and> CreatedAt goal = CreatedAt old"
proof -
  have "UpdateGoal \<lparr>docs = [learn_go], unreachable = False\<rparr> 7123456789
       \<lparr>Param_id = ''010101010101010101010101'', userId = Some alice,
        ShouldBindJSON = Inr reschedule_request\<rparr>
     = ((StatusOK, GoalJSON (learn_go\<lparr>StartDate := 1000000000, EndDate := Some 2000000000,
                                       UpdatedAt := 7123000000\<rparr>)),
        \<lparr>docs = [learn_go\<lparr>StartDate := 1000000000, EndDate := Some 2000000000,
                           UpdatedAt := 7123000000\<rparr>], unreachable = False\<rparr>)"
    using update_learn_go [of False 7123456789 reschedule_request]
    by (simp add: apply_set_UpdateGoal_update reschedule_request_def learn_go_def IsZero_def
        zeroTime_def bson_DateTime_def)
  then show ?thesis by (rule C5_update_writes)
qed

text \<open>
  A goal stored as completed is renamed by a request that names the title only: the
  stored \<open>completed\<close> becomes \<open>false\<close> and the stored \<open>updatedAt\<close> becomes the current time
  (7123456789 ns, stored as 7123 ms), though the request has neither.
\<close>

theorem C5_counterexample:
  "UpdateGoal \<lparr>docs = [learn_go\<lparr>Completed := True\<rparr>], unreachable = False\<rparr> 7123456789
       \<lparr>Param_id = ''010101010101010101010101'', userId = Some alice,
        ShouldBindJSON = Inr rename_request\<rparr>
     = ((StatusOK, GoalJSON (learn_go\<lparr>Title := ''Learn Rust'', UpdatedAt := 7123000000\<rparr>)),
        \<lparr>docs = [learn_go\<lparr>Title := ''Learn Rust'', UpdatedAt := 7123000000\<rparr>], unreachable = False\<rparr>)
   \<and> uq_Completed rename_request = False
   \<and> Completed (learn_go\<lparr>Completed := True\<rparr>) = True
   \<and> Completed (learn_go\<lparr>Title := ''Learn Rust'', UpdatedAt := 7123000000\<rparr>) = False
   \<and> UpdatedAt (learn_go\<lparr>Completed := True\<rparr>) = 0
   \<and> UpdatedAt (learn_go\<lparr>Title := ''Learn Rust'', UpdatedAt := 7123000000\<rparr>) = 7123000000"
  using update_learn_go [of True 7123456789 rename_request]
  by (simp add: apply_set_UpdateGoal_update rename_request_def learn_go_def IsZero_def
      bson_DateTime_def)

subsection \<open>Ownership\<close>

lemma bson_Goal_owner: "ID (bson_Goal g) = ID g" "UserID (bson_Goal g) = UserID g"
  by (simp_all add: bson_Goal_def)

text \<open>
  With a body that binds and validates, an authenticated context, a reachable store and
  an id that no stored goal has, \<open>CreateGoal\<close> answers 201 with the goal as built and
  appends it, as BSON holds it, to the collection.
\<close>

lemma CreateGoal_succeeds:
  assumes "ShouldBindJSON c = Inr req" and "v req = None" and "userId c = Some userID"
    and "\<not> unreachable goalCollection" and "oid \<notin> ID ` set (docs goalCollection)"
  shows "CreateGoal goalCollection v now oid c =
            ((StatusCreated,
              GoalJSON \<lparr> ID = oid, UserID = userID, Title = cq_Title req,
                         Description = cq_Description req, SubTasks = [],
                         StartDate = cq_StartDate req, EndDate = cq_EndDate req,
                         Completed = False, Progress = 0, CreatedAt = now, UpdatedAt = now \<rparr>),
             goalCollection\<lparr>docs := docs goalCollection @
               [bson_Goal \<lparr> ID = oid, UserID = userID, Title = cq_Title req,
                   Description = cq_Description req, SubTasks = [],
                   StartDate = cq_StartDate req, EndDate = cq_EndDate req,
                   Completed = False, Progress = 0, CreatedAt = now, UpdatedAt = now \<rparr>]\<rparr>)"
proof -
  have "\<not> list_ex (\<lambda>e. ID e = oid) (docs goalCollection)"
    using assms(5) by (auto simp: list_ex_iff)
  with assms(1-4) show ?thesis
    by (simp add: CreateGoal_def InsertOne_def Let_def)
qed

lemma CreateGoal_store:
  "snd (CreateGoal goalCollection v now oid c) = goalCollection
   \<or> (\<exists>userID req. userId c = Some userID \<and> ShouldBindJSON c = Inr req
        \<and> CreateGoal goalCollection v now oid c =
            ((StatusCreated,
              GoalJSON \<lparr> ID = oid, UserID = userID, Title = cq_Title req,
                         Description = cq_Description req, SubTasks = [],
                         StartDate = cq_StartDate req, EndDate = cq_EndDate req,
                         Completed = False, Progress = 0, CreatedAt = now, UpdatedAt = now \<rparr>),
             goalCollection\<lparr>docs := docs goalCollection @
               [bson_Goal \<lparr> ID = oid, UserID = userID, Title = cq_Title req,
                   Description = cq_Description req, SubTasks = [],
                   StartDate = cq_StartDate req, EndDate = cq_EndDate req,
                   Completed = False, Progress = 0, CreatedAt = now, UpdatedAt = now \<rparr>]\<rparr>))"
  by (auto simp: CreateGoal_def InsertOne_def Let_def split: sum.splits option.splits)

lemma CreateGoal_created:
  assumes "CreateGoal goalCollection v now oid c = ((StatusCreated, body), coll')"
  shows "\<exists>userID req. userId c = Some userID \<and> ShouldBindJSON c = Inr req
      \<and> body = GoalJSON \<lparr> ID = oid, UserID = userID, Title = cq_Title req,
                         Description = cq_Description req, SubTasks = [],
                         StartDate = cq_StartDate req, EndDate = cq_EndDate req,
                         Completed = False, Progress = 0, CreatedAt = now, UpdatedAt = now \<rparr>
      \<and> coll' = goalCollection\<lparr>docs := docs goalCollection @
               [bson_Goal \<lparr> ID = oid, UserID = userID, Title = cq_Title req,
                   Description = cq_Description req, SubTasks = [],
                   StartDate = cq_StartDate req, EndDate = cq_EndDate req,
                   Completed = False, Progress = 0, CreatedAt = now, UpdatedAt = now \<rparr>]\<rparr>"
  using assms
  by (auto simp: CreateGoal_def InsertOne_def Let_def StatusCreated_def StatusBadRequest_def
      StatusUnauthorized_def StatusInternalServerError_def
      split: sum.splits option.splits if_splits)

lemma UpdateGoal_owners:
  "map (\<lambda>g. (ID g, UserID g)) (docs (snd (UpdateGoal goalCollection now c)))
     = map (\<lambda>g. (ID g, UserID g)) (docs goalCollection)"
proof -
  have k: "(\<lambda>g. (ID g, UserID g)) (apply_set (UpdateGoal_update now req) d)
      = (\<lambda>g. (ID g, UserID g)) d" for req d
    using apply_set_frame [OF UpdateGoal_update_dom, of now req d] by simp
  have "map (\<lambda>g. (ID g, UserID g))
          (update_first flt (apply_set (UpdateGoal_update now req)) (docs goalCollection))
      = map (\<lambda>g. (ID g, UserID g)) (docs goalCollection)" for flt req
    by (rule update_first_map) (rule k)
  then show ?thesis
    by (auto simp: UpdateGoal_def UpdateOne_def split: option.splits sum.splits prod.splits)
qed

lemma GetGoal_store: "snd (GetGoal goalCollection c) = goalCollection"
  by (auto simp: GetGoal_def split: option.splits sum.splits)

lemma ListGoals_store: "snd (ListGoals goalCollection c) = goalCollection"
  by (auto simp: ListGoals_def split: option.splits sum.splits)

lemma DeleteGoal_store:
  "set (docs (snd (DeleteGoal goalCollection c))) \<subseteq> set (docs goalCollection)"
  using delete_first_subset [of _ "docs goalCollection"]
  by (auto simp: DeleteGoal_def DeleteOne_def split: option.splits sum.splits prod.splits)

text \<open>Every handler keeps the ids of the stored goals distinct.\<close>

lemma delete_first_distinct:
  "distinct (map k ds) \<Longrightarrow> distinct (map k (delete_first flt ds))"
proof (induction ds)
  case Nil
  then show ?case by simp
next
  case (Cons d ds)
  have "set (delete_first flt ds) \<subseteq> set ds" by (rule delete_first_subset)
  with Cons show ?case by auto
qed

lemma CreateGoal_ids_distinct:
  assumes "distinct (map ID (docs goalCollection))"
  shows "distinct (map ID (docs (snd (CreateGoal goalCollection v now oid c))))"
  using assms
  by (auto simp: CreateGoal_def InsertOne_def Let_def list_ex_iff bson_Goal_owner
      split: sum.splits option.splits)

lemma UpdateGoal_ids_distinct:
  assumes "distinct (map ID (docs goalCollection))"
  shows "distinct (map ID (docs (snd (UpdateGoal goalCollection now c))))"
proof -
  have "map ID (docs (snd (UpdateGoal goalCollection now c))) = map ID (docs goalCollection)"
    using UpdateGoal_owners [of goalCollection now c, THEN arg_cong, of "map fst"]
    by (simp add: comp_def)
  with assms show ?thesis by simp
qed

lemma DeleteGoal_ids_distinct:
  assumes "distinct (map ID (docs goalCollection))"
  shows "distinct (map ID (docs (snd (DeleteGoal goalCollection c))))"
  using assms delete_first_distinct [of ID "docs goalCollection"]
  by (auto simp: DeleteGoal_def DeleteOne_def split: option.splits sum.splits)

lemma create_learn_go:
  "CreateGoal \<lparr>docs = [], unreachable = False\<rparr> (\<lambda>req. None) 0 goal1
       \<lparr>Param_id = [], userId = Some alice, ShouldBindJSON = Inr learn_go_request\<rparr>
     = ((StatusCreated, GoalJSON learn_go), \<lparr>docs = [learn_go], unreachable = False\<rparr>)"
  by (simp add: CreateGoal_def InsertOne_def Let_def learn_go_request_def learn_go_def
      bson_Goal_def bson_DateTime_def)

text \<open>
  C10. With a body that binds and validates, an authenticated context, a reachable
  collection and a fresh id, \<open>CreateGoal\<close> answers 201 with a goal whose owner is the
  \<open>userId\<close> of the request context, whatever the body is (the request type has no such
  field), and appends that goal, as BSON holds it and with the same id and owner, to the
  collection. Whenever \<open>CreateGoal\<close> answers 201 the owner of the goal is the \<open>userId\<close> of
  the context and that goal is what is appended; in every other case the collection is
  as it was. The update document of \<open>UpdateGoal\<close> has no key but title, description,
  startDate, endDate, completed and updatedAt, and \<open>UpdateGoal\<close> leaves the id and the
  owner of every stored goal as they were; \<open>GetGoal\<close> and \<open>ListGoals\<close> leave the collection
  alone and \<open>DeleteGoal\<close> only removes.
\<close>

theorem C10_owner_is_immutable:
  "(ShouldBindJSON c = Inr creq \<and> v creq = None \<and> userId c = Some uid
      \<and> \<not> unreachable goalCollection \<and> oid \<notin> ID ` set (docs goalCollection) \<longrightarrow>
      (\<exists>created. CreateGoal goalCollection v now oid c
                   = ((StatusCreated, GoalJSON created),
                      goalCollection\<lparr>docs := docs goalCollection @ [bson_Goal created]\<rparr>)
          \<and> ID created = oid \<and> UserID created = uid
          \<and> ID (bson_Goal created) = oid \<and> UserID (bson_Goal created) = uid))
   \<and> (CreateGoal goalCollection v now oid c = ((StatusCreated, GoalJSON goal), coll') \<longrightarrow>
      userId c = Some (UserID goal) \<and> ID goal = oid
      \<and> docs coll' = docs goalCollection @ [bson_Goal goal]
      \<and> UserID (bson_Goal goal) = UserID goal)
   \<and> (snd (CreateGoal goalCollection v now oid c) = goalCollection
       \<or> (\<exists>userID. userId c = Some userID
            \<and> map (\<lambda>g. (ID g, UserID g)) (docs (snd (CreateGoal goalCollection v now oid c)))
                = map (\<lambda>g. (ID g, UserID g)) (docs goalCollection) @ [(oid, userID)]))
   \<and> dom (UpdateGoal_update now req)
       \<subseteq> {''title'', ''description'', ''startDate'', ''endDate'', ''completed'', ''updatedAt''}
   \<and> map (\<lambda>g. (ID g, UserID g)) (docs (snd (UpdateGoal goalCollection now cu)))
       = map (\<lambda>g. (ID g, UserID g)) (docs goalCollection)
   \<and> snd (GetGoal goalCollection cg) = goalCollection
   \<and> snd (ListGoals goalCollection cl) = goalCollection
   \<and> set (docs (snd (DeleteGoal goalCollection cd))) \<subseteq> set (docs goalCollection)"
proof (intro conjI impI)
  assume h: "ShouldBindJSON c = Inr creq \<and> v creq = None \<and> userId c = Some uid
      \<and> \<not> unreachable goalCollection \<and> oid \<notin> ID ` set (docs goalCollection)"
  let ?created = "\<lparr> ID = oid, UserID = uid, Title = cq_Title creq,
      Description = cq_Description creq, SubTasks = [],
      StartDate = cq_StartDate creq, EndDate = cq_EndDate creq,
      Completed = False, Progress = 0, CreatedAt = now, UpdatedAt = now \<rparr>"
  from h have "CreateGoal goalCollection v now oid c
      = ((StatusCreated, GoalJSON ?created),
         goalCollection\<lparr>docs := docs goalCollection @ [bson_Goal ?created]\<rparr>)"
    by (intro CreateGoal_succeeds) simp_all
  moreover have "ID ?created = oid \<and> UserID ?created = uid
      \<and> ID (bson_Goal ?created) = oid \<and> UserID (bson_Goal ?created) = uid"
    by (simp add: bson_Goal_owner)
  ultimately show "\<exists>created. CreateGoal goalCollection v now oid c
                   = ((StatusCreated, GoalJSON created),
                      goalCollection\<lparr>docs := docs goalCollection @ [bson_Goal created]\<rparr>)
          \<and> ID created = oid \<and> UserID created = uid
          \<and> ID (bson_Goal created) = oid \<and> UserID (bson_Goal created) = uid"
    by blast
next
  assume "CreateGoal goalCollection v now oid c = ((StatusCreated, GoalJSON goal), coll')"
  from CreateGoal_created [OF this]
  show "userId c = Some (UserID goal)" and "ID goal = oid"
    and "docs coll' = docs goalCollection @ [bson_Goal goal]"
    by auto
next
  show "UserID (bson_Goal goal) = UserID goal"
    by (rule bson_Goal_owner)
next
  from CreateGoal_store [of goalCollection v now oid c]
  show "snd (CreateGoal goalCollection v now oid c) = goalCollection
       \<or> (\<exists>userID. userId c = Some userID
            \<and> map (\<lambda>g. (ID g, UserID g)) (docs (snd (CreateGoal goalCollection v now oid c)))
                = map (\<lambda>g. (ID g, UserID g)) (docs goalCollection) @ [(oid, userID)])"
    by (auto simp: bson_Goal_owner)
qed (rule UpdateGoal_update_dom UpdateGoal_owners GetGoal_store ListGoals_store DeleteGoal_store)+

text \<open>
  Alice creates \<open>Learn Go\<close> at the instant 7123456789 ns in an empty collection, with a
  body that has no owner: the answer is 201 with alice as the owner and the instant as
  it was read, the collection holds the goal with alice as the owner and the instant cut
  to 7123 ms. Then alice renames it: id and owner are as they were.
\<close>

theorem C10_witness:
  "(\<exists>created. CreateGoal \<lparr>docs = [], unreachable = False\<rparr> (\<lambda>req. None) 7123456789 goal1
         \<lparr>Param_id = [], userId = Some alice, ShouldBindJSON = Inr learn_go_request\<rparr>
       = ((StatusCreated, GoalJSON created),
          \<lparr>docs = [], unreachable = False\<rparr>
            \<lparr>docs := docs \<lparr>docs = [], unreachable = False\<rparr> @ [bson_Goal created]\<rparr>)
       \<and> ID created = goal1 \<and> UserID created = alice
       \<and> ID (bson_Goal created) = goal1 \<and> UserID (bson_Goal created) = alice)
   \<and> CreateGoal \<lparr>docs = [], unreachable = False\<rparr> (\<lambda>req. None) 7123456789 goal1
         \<lparr>Param_id = [], userId = Some alice, ShouldBindJSON = Inr learn_go_request\<rparr>
       = ((StatusCreated,
           GoalJSON (learn_go\<lparr>CreatedAt := 7123456789, UpdatedAt := 7123456789\<rparr>)),
          \<lparr>docs = [learn_go\<lparr>CreatedAt := 7123000000, UpdatedAt := 7123000000\<rparr>],
           unreachable = False\<rparr>)
   \<and> userId \<lparr>Param_id = [], userId = Some alice, ShouldBindJSON = Inr learn_go_request\<rparr>
       = Some (UserID (learn_go\<lparr>CreatedAt := 7123456789, UpdatedAt := 7123456789\<rparr>))
   \<and> docs \<lparr>docs = [learn_go\<lparr>CreatedAt := 7123000000, UpdatedAt := 7123000000\<rparr>],
           unreachable = False\<rparr>
       = docs \<lparr>docs = [], unreachable = False\<rparr>
         @ [bson_Goal (learn_go\<lparr>CreatedAt := 7123456789, UpdatedAt := 7123456789\<rparr>)]
   \<and> map (\<lambda>g. (ID g, UserID g))
        (docs (snd (UpdateGoal
           \<lparr>docs = [learn_go\<lparr>CreatedAt := 7123000000, UpdatedAt := 7123000000\<rparr>],
            unreachable = False\<rparr> 9000000000
           \<lparr>Param_id = ''010101010101010101010101'', userId = Some alice,
            ShouldBindJSON = Inr rename_request\<rparr>)))
       = [(goal1, alice)]"
proof -
  let ?empty = "\<lparr>docs = [], unreachable = False\<rparr> :: Goal Collection"
  let ?c = "\<lparr>Param_id = [], userId = Some alice, ShouldBindJSON = Inr learn_go_request\<rparr>"
  let ?cu = "\<lparr>Param_id = ''010101010101010101010101'', userId = Some alice,
            ShouldBindJSON = Inr rename_request\<rparr>"
  let ?built = "learn_go\<lparr>CreatedAt := 7123456789, UpdatedAt := 7123456789\<rparr>"
  let ?stored = "\<lparr>docs = [learn_go\<lparr>CreatedAt := 7123000000, UpdatedAt := 7123000000\<rparr>],
           unreachable = False\<rparr>"
  have run: "CreateGoal ?empty (\<lambda>req. None) 7123456789 goal1 ?c
       = ((StatusCreated, GoalJSON ?built), ?stored)"
    by (simp add: CreateGoal_def InsertOne_def Let_def learn_go_request_def learn_go_def
        bson_Goal_def bson_DateTime_def)
  note t1 = C10_owner_is_immutable [where goalCollection = ?empty and v = "\<lambda>req. None"
      and now = 7123456789 and oid = goal1 and c = ?c and creq = learn_go_request
      and uid = alice and goal = ?built and coll' = ?stored and req = rename_request
      and cu = ?cu and cg = ?cu and cl = ?cu and cd = ?cu]
  note t2 = C10_owner_is_immutable [where goalCollection = ?stored and v = "\<lambda>req. None"
      and now = 9000000000 and oid = goal1 and c = ?c and creq = learn_go_request
      and uid = alice and goal = ?built and coll' = ?stored and req = rename_request
      and cu = ?cu and cg = ?cu and cl = ?cu and cd = ?cu]
  have a: "\<exists>created. CreateGoal ?empty (\<lambda>req. None) 7123456789 goal1 ?c
       = ((StatusCreated, GoalJSON created),
          ?empty\<lparr>docs := docs ?empty @ [bson_Goal created]\<rparr>)
       \<and> ID created = goal1 \<and> UserID created = alice
       \<and> ID (bson_Goal created) = goal1 \<and> UserID (bson_Goal created) = alice"
    by (rule t1 [THEN conjunct1, THEN mp]) simp
  from t1 [THEN conjunct2, THEN conjunct1, THEN mp, OF run]
  have b: "userId ?c = Some (UserID ?built)"
    and c: "docs ?stored = docs ?empty @ [bson_Goal ?built]"
    by blast+
  from t2 [THEN conjunct2, THEN conjunct2, THEN conjunct2, THEN conjunct2, THEN conjunct1]
  have d: "map (\<lambda>g. (ID g, UserID g))
        (docs (snd (UpdateGoal ?stored 9000000000 ?cu))) = [(goal1, alice)]"
    by (simp add: learn_go_def)
  from a run b c d show ?thesis by blast
qed

subsection \<open>The goals that are returned\<close>

lemma GetGoal_ok:
  assumes "GetGoal goalCollection c = ((StatusOK, body), coll')"
  shows "\<exists>goal. body = GoalJSON goal \<and> goal \<in> set (docs goalCollection) \<and> coll' = goalCollection"
proof -
  have "List.find flt ds = Some d \<Longrightarrow> d \<in> set ds" for flt and ds :: "Goal list" and d
    by (auto simp: find_Some_iff)
  with assms show ?thesis
    by (auto simp: GetGoal_def FindOne_def StatusOK_def StatusBadRequest_def
        StatusUnauthorized_def StatusNotFound_def StatusInternalServerError_def
        split: option.splits sum.splits if_splits)
qed

lemma ListGoals_ok:
  assumes "ListGoals goalCollection c = ((StatusOK, body), coll')"
  shows "\<exists>goals. body = GoalsJSON goals \<and> set goals \<subseteq> set (docs goalCollection)
      \<and> coll' = goalCollection"
  using assms
  by (auto simp: ListGoals_def Find_sorted_def cursor_All_def StatusOK_def
      StatusUnauthorized_def StatusInternalServerError_def
      split: option.splits sum.splits if_splits)

lemma Recompute_created:
  "SubTasks g = [] \<Longrightarrow> Progress g = 0 \<Longrightarrow>
     Progress (CalculateProgress g) = Progress g \<and> Recompute g = g"
  by (simp add: CalculateProgress_def Recompute_def IsCompleted_def)

text \<open>
  C2, as the handlers have it. \<open>CreateGoal\<close> returns a goal without subtasks, with progress
  0 and not completed, which is what the Progress Engine computes for it. \<open>GetGoal\<close> and
  \<open>ListGoals\<close> return stored goals as they are stored, and \<open>UpdateGoal\<close> returns the stored
  goal with the request's \<open>completed\<close> value and the stored progress and subtasks: none of
  them runs the Progress Engine.
\<close>

theorem C2_returned_goals:
  "(CreateGoal goalCollection v now oid cc = ((StatusCreated, body), coll') \<longrightarrow>
      (\<exists>goal. body = GoalJSON goal \<and> SubTasks goal = [] \<and> Progress goal = 0
         \<and> Completed goal = False
         \<and> Progress (CalculateProgress goal) = Progress goal
         \<and> fst (IsCompleted goal) = Completed goal \<and> Recompute goal = goal))
   \<and> (GetGoal goalCollection cg = ((StatusOK, body), coll') \<longrightarrow>
      (\<exists>goal. body = GoalJSON goal \<and> goal \<in> set (docs goalCollection)))
   \<and> (ListGoals goalCollection cl = ((StatusOK, body), coll') \<longrightarrow>
      (\<exists>goals. body = GoalsJSON goals \<and> set goals \<subseteq> set (docs goalCollection)))
   \<and> (UpdateGoal goalCollection now cu = ((StatusOK, body), coll') \<longrightarrow>
      (\<exists>req old goal. ShouldBindJSON cu = Inr req \<and> old \<in> set (docs goalCollection)
         \<and> body = GoalJSON goal \<and> Completed goal = uq_Completed req
         \<and> Progress goal = Progress old \<and> SubTasks goal = SubTasks old))"
proof (intro conjI impI)
  assume "CreateGoal goalCollection v now oid cc = ((StatusCreated, body), coll')"
  from CreateGoal_created [OF this] obtain goal
    where "body = GoalJSON goal" "SubTasks goal = []" "Progress goal = 0" "Completed goal = False"
    by auto
  moreover from this have "Progress (CalculateProgress goal) = Progress goal \<and> Recompute goal = goal"
    by (simp add: Recompute_created)
  moreover from \<open>SubTasks goal = []\<close> \<open>Completed goal = False\<close>
  have "fst (IsCompleted goal) = Completed goal"
    by (simp add: IsCompleted_def)
  ultimately show "\<exists>goal. body = GoalJSON goal \<and> SubTasks goal = [] \<and> Progress goal = 0
         \<and> Completed goal = False
         \<and> Progress (CalculateProgress goal) = Progress goal
         \<and> fst (IsCompleted goal) = Completed goal \<and> Recompute goal = goal"
    by blast
next
  assume "GetGoal goalCollection cg = ((StatusOK, body), coll')"
  from GetGoal_ok [OF this]
  show "\<exists>goal. body = GoalJSON goal \<and> goal \<in> set (docs goalCollection)" by blast
next
  assume "ListGoals goalCollection cl = ((StatusOK, body), coll')"
  from ListGoals_ok [OF this]
  show "\<exists>goals. body = GoalsJSON goals \<and> set goals \<subseteq> set (docs goalCollection)" by blast
next
  assume "UpdateGoal goalCollection now cu = ((StatusOK, body), coll')"
  from UpdateGoal_success [OF this] obtain req old pre post
    where r: "ShouldBindJSON cu = Inr req" and d: "docs goalCollection = pre @ old # post"
      and b: "body = GoalJSON (apply_set (UpdateGoal_update now req) old)"
    by blast
  from d have "old \<in> set (docs goalCollection)" by simp
  moreover have "Completed (apply_set (UpdateGoal_update now req) old) = uq_Completed req"
    by (simp add: apply_set_UpdateGoal_update)
  moreover have "Progress (apply_set (UpdateGoal_update now req) old) = Progress old"
    and "SubTasks (apply_set (UpdateGoal_update now req) old) = SubTasks old"
    by (simp_all add: apply_set_UpdateGoal_update)
  ultimately show "\<exists>req old goal. ShouldBindJSON cu = Inr req \<and> old \<in> set (docs goalCollection)
         \<and> body = GoalJSON goal \<and> Completed goal = uq_Completed req
         \<and> Progress goal = Progress old \<and> SubTasks goal = SubTasks old"
    using r b by blast
qed

lemma get_stored:
  "ID g = goal1 \<Longrightarrow> UserID g = alice \<Longrightarrow>
   GetGoal \<lparr>docs = [g], unreachable = False\<rparr>
       \<lparr>Param_id = ''010101010101010101010101'', userId = Some alice,
        ShouldBindJSON = Inr rename_request\<rparr>
     = ((StatusOK, GoalJSON g), \<lparr>docs = [g], unreachable = False\<rparr>)"
  by (simp add: GetGoal_def FindOne_def goal1_hex by_id_and_user_def)

lemma list_learn_go:
  "ListGoals \<lparr>docs = [learn_go], unreachable = False\<rparr>
       \<lparr>Param_id = [], userId = Some alice, ShouldBindJSON = Inr rename_request\<rparr>
     = ((StatusOK, GoalsJSON [learn_go]), \<lparr>docs = [learn_go], unreachable = False\<rparr>)"
  by (simp add: ListGoals_def Find_sorted_def cursor_All_def by_user_def learn_go_def)

lemma complete_learn_go:
  "UpdateGoal \<lparr>docs = [learn_go], unreachable = False\<rparr> 5000000
       \<lparr>Param_id = ''010101010101010101010101'', userId = Some alice,
        ShouldBindJSON = Inr completed_request\<rparr>
     = ((StatusOK, GoalJSON (learn_go\<lparr>Completed := True, UpdatedAt := 5000000\<rparr>)),
        \<lparr>docs = [learn_go\<lparr>Completed := True, UpdatedAt := 5000000\<rparr>], unreachable = False\<rparr>)"
  using update_learn_go [of False 5000000 completed_request]
  by (simp add: apply_set_UpdateGoal_update completed_request_def learn_go_def IsZero_def
      bson_DateTime_def)

theorem C2_witness:
  "(\<exists>goal. GoalJSON learn_go = GoalJSON goal \<and> SubTasks goal = [] \<and> Progress goal = 0
       \<and> Completed goal = False
       \<and> Progress (CalculateProgress goal) = Progress goal
       \<and> fst (IsCompleted goal) = Completed goal \<and> Recompute goal = goal)
   \<and> (\<exists>goal. GoalJSON learn_go = GoalJSON goal
       \<and> goal \<in> set (docs \<lparr>docs = [learn_go], unreachable = False\<rparr>))
   \<and> (\<exists>goals. GoalsJSON [learn_go] = GoalsJSON goals
       \<and> set goals \<subseteq> set (docs \<lparr>docs = [learn_go], unreachable = False\<rparr>))
   \<and> (\<exists>req old goal.
         ShouldBindJSON \<lparr>Param_id = ''010101010101010101010101'', userId = Some alice,
                         ShouldBindJSON = Inr completed_request\<rparr> = Inr req
       \<and> old \<in> set (docs \<lparr>docs = [learn_go], unreachable = False\<rparr>)
       \<and> GoalJSON (learn_go\<lparr>Completed := True, UpdatedAt := 5000000\<rparr>) = GoalJSON goal
       \<and> Completed goal = uq_Completed req
       \<and> Progress goal = Progress old \<and> SubTasks goal = SubTasks old)"
proof (intro conjI)
  show "\<exists>goal. GoalJSON learn_go = GoalJSON goal \<and> SubTasks goal = [] \<and> Progress goal = 0
       \<and> Completed goal = False
       \<and> Progress (CalculateProgress goal) = Progress goal
       \<and> fst (IsCompleted goal) = Completed goal \<and> Recompute goal = goal"
    by (rule C2_returned_goals [THEN conjunct1, THEN mp, OF create_learn_go])
  have g: "GetGoal \<lparr>docs = [learn_go], unreachable = False\<rparr>
       \<lparr>Param_id = ''010101010101010101010101'', userId = Some alice,
        ShouldBindJSON = Inr rename_request\<rparr>
     = ((StatusOK, GoalJSON learn_go), \<lparr>docs = [learn_go], unreachable = False\<rparr>)"
    by (rule get_stored) (simp_all add: learn_go_def)
  show "\<exists>goal. GoalJSON learn_go = GoalJSON goal
       \<and> goal \<in> set (docs \<lparr>docs = [learn_go], unreachable = False\<rparr>)"
    by (rule C2_returned_goals [THEN conjunct2, THEN conjunct1, THEN mp, OF g])
  show "\<exists>goals. GoalsJSON [learn_go] = GoalsJSON goals
       \<and> set goals \<subseteq> set (docs \<lparr>docs = [learn_go], unreachable = False\<rparr>)"
    by (rule C2_returned_goals [THEN conjunct2, THEN conjunct2, THEN conjunct1, THEN mp,
          OF list_learn_go])
  show "\<exists>req old goal.
         ShouldBindJSON \<lparr>Param_id = ''010101010101010101010101'', userId = Some alice,
                         ShouldBindJSON = Inr completed_request\<rparr> = Inr req
       \<and> old \<in> set (docs \<lparr>docs = [learn_go], unreachable = False\<rparr>)
       \<and> GoalJSON (learn_go\<lparr>Completed := True, UpdatedAt := 5000000\<rparr>) = GoalJSON goal
       \<and> Completed goal = uq_Completed req
       \<and> Progress goal = Progress old \<and> SubTasks goal = SubTasks old"
    by (rule C2_returned_goals [THEN conjunct2, THEN conjunct2, THEN conjunct2, THEN mp,
          OF complete_learn_go])
qed

text \<open>
  Two goals that are returned with values the Progress Engine would not compute. The
  first is created and then updated with \<open>completed = true\<close>: it comes back completed with
  no subtasks, for which \<open>IsCompleted\<close> answers \<open>false\<close>. The second is stored with one
  finished subtask, progress 0 and not completed: \<open>GetGoal\<close> returns it so, while
  \<open>Recompute\<close> gives progress 100 and completed.
\<close>

theorem C2_counterexample:
  "CreateGoal \<lparr>docs = [], unreachable = False\<rparr> (\<lambda>req. None) 0 goal1
       \<lparr>Param_id = [], userId = Some alice, ShouldBindJSON = Inr learn_go_request\<rparr>
     = ((StatusCreated, GoalJSON learn_go), \<lparr>docs = [learn_go], unreachable = False\<rparr>)
   \<and> UpdateGoal \<lparr>docs = [learn_go], unreachable = False\<rparr> 5000000
       \<lparr>Param_id = ''010101010101010101010101'', userId = Some alice,
        ShouldBindJSON = Inr completed_request\<rparr>
     = ((StatusOK, GoalJSON (learn_go\<lparr>Completed := True, UpdatedAt := 5000000\<rparr>)),
        \<lparr>docs = [learn_go\<lparr>Completed := True, UpdatedAt := 5000000\<rparr>], unreachable = False\<rparr>)
   \<and> GetGoal \<lparr>docs = [learn_go\<lparr>Completed := True, UpdatedAt := 5000000\<rparr>], unreachable = False\<rparr>
       \<lparr>Param_id = ''010101010101010101010101'', userId = Some alice,
        ShouldBindJSON = Inr rename_request\<rparr>
     = ((StatusOK, GoalJSON (learn_go\<lparr>Completed := True, UpdatedAt := 5000000\<rparr>)),
        \<lparr>docs = [learn_go\<lparr>Completed := True, UpdatedAt := 5000000\<rparr>], unreachable = False\<rparr>)
   \<and> SubTasks (learn_go\<lparr>Completed := True, UpdatedAt := 5000000\<rparr>) = []
   \<and> Completed (learn_go\<lparr>Completed := True, UpdatedAt := 5000000\<rparr>) = True
   \<and> fst (IsCompleted (learn_go\<lparr>Completed := True, UpdatedAt := 5000000\<rparr>)) = False
   \<and> GetGoal \<lparr>docs = [learn_go\<lparr>SubTasks := [done_task]\<rparr>], unreachable = False\<rparr>
       \<lparr>Param_id = ''010101010101010101010101'', userId = Some alice,
        ShouldBindJSON = Inr rename_request\<rparr>
     = ((StatusOK, GoalJSON (learn_go\<lparr>SubTasks := [done_task]\<rparr>)),
        \<lparr>docs = [learn_go\<lparr>SubTasks := [done_task]\<rparr>], unreachable = False\<rparr>)
   \<and> Progress (learn_go\<lparr>SubTasks := [done_task]\<rparr>) = 0
   \<and> Completed (learn_go\<lparr>SubTasks := [done_task]\<rparr>) = False
   \<and> Progress (Recompute (learn_go\<lparr>SubTasks := [done_task]\<rparr>)) = 100
   \<and> Completed (Recompute (learn_go\<lparr>SubTasks := [done_task]\<rparr>)) = True"
proof -
  have g1: "GetGoal \<lparr>docs = [learn_go\<lparr>Completed := True, UpdatedAt := 5000000\<rparr>], unreachable = False\<rparr>
       \<lparr>Param_id = ''010101010101010101010101'', userId = Some alice,
        ShouldBindJSON = Inr rename_request\<rparr>
     = ((StatusOK, GoalJSON (learn_go\<lparr>Completed := True, UpdatedAt := 5000000\<rparr>)),
        \<lparr>docs = [learn_go\<lparr>Completed := True, UpdatedAt := 5000000\<rparr>], unreachable = False\<rparr>)"
    by (rule get_stored) (simp_all add: learn_go_def)
  have g2: "GetGoal \<lparr>docs = [learn_go\<lparr>SubTasks := [done_task]\<rparr>], unreachable = False\<rparr>
       \<lparr>Param_id = ''010101010101010101010101'', userId = Some alice,
        ShouldBindJSON = Inr rename_request\<rparr>
     = ((StatusOK, GoalJSON (learn_go\<lparr>SubTasks := [done_task]\<rparr>)),
        \<lparr>docs = [learn_go\<lparr>SubTasks := [done_task]\<rparr>], unreachable = False\<rparr>)"
    by (rule get_stored) (simp_all add: learn_go_def)
  have e: "fst (IsCompleted (learn_go\<lparr>Completed := True, UpdatedAt := 5000000\<rparr>)) = False"
    by (simp add: IsCompleted_def learn_go_def)
  have r: "Progress (Recompute (learn_go\<lparr>SubTasks := [done_task]\<rparr>)) = 100
      \<and> Completed (Recompute (learn_go\<lparr>SubTasks := [done_task]\<rparr>)) = True"
    using Recompute_nonempty [of "learn_go\<lparr>SubTasks := [done_task]\<rparr>"]
    by (simp add: done_task_def)
  from create_learn_go complete_learn_go g1 g2 e r show ?thesis
    by (simp add: learn_go_def)
qed

section \<open>The password hash stays inside\<close>

lemma find_map:
  "(\<And>d. flt (f d) = flt d) \<Longrightarrow> List.find flt (map f ds) = map_option f (List.find flt ds)"
  by (induction ds) auto

lemma ToResponse_password: "ToResponse (u\<lparr>u_Password := p\<rparr>) = ToResponse u"
  by (simp add: ToResponse_def)

lemma FindOne_rehash:
  assumes "\<And>u. flt (u\<lparr>u_Password := hash' u\<rparr>) = flt u"
  shows "FindOne (users\<lparr>docs := map (\<lambda>u. u\<lparr>u_Password := hash' u\<rparr>) (docs users)\<rparr>) flt
     = map_sum id (\<lambda>u. u\<lparr>u_Password := hash' u\<rparr>) (FindOne users flt)"
proof -
  have "List.find flt (map (\<lambda>u. u\<lparr>u_Password := hash' u\<rparr>) (docs users))
      = map_option (\<lambda>u. u\<lparr>u_Password := hash' u\<rparr>) (List.find flt (docs users))"
    by (rule find_map) (rule assms)
  then show ?thesis
    by (simp add: FindOne_def split: option.splits)
qed

lemma Login_hash_independent:
  assumes "\<forall>u \<in> set (docs users). \<forall>pw.
      CompareHashAndPassword bc' (hash' u) pw
        = CompareHashAndPassword (bcrypt h) (u_Password u) pw"
  shows "Login (users\<lparr>docs := map (\<lambda>u. u\<lparr>u_Password := hash' u\<rparr>) (docs users)\<rparr>)
           (h\<lparr>bcrypt := bc'\<rparr>) c
       = Login users h c"
proof (cases "ShouldBindJSON c")
  case (Inl err)
  then show ?thesis by (simp add: Login_def)
next
  case (Inr req)
  show ?thesis
  proof (cases "validator_Struct h req")
    case (Some err)
    with Inr show ?thesis by (simp add: Login_def)
  next
    case None
    let ?users' = "users\<lparr>docs := map (\<lambda>u. u\<lparr>u_Password := hash' u\<rparr>) (docs users)\<rparr>"
    have f: "FindOne ?users' (by_email (lq_Email req))
        = map_sum id (\<lambda>u. u\<lparr>u_Password := hash' u\<rparr>) (FindOne users (by_email (lq_Email req)))"
      by (rule FindOne_rehash) (simp add: by_email_def)
    show ?thesis
    proof (cases "FindOne users (by_email (lq_Email req))")
      case (Inl err)
      with Inr None f show ?thesis by (simp add: Login_def)
    next
      case found: (Inr user)
      then have "user \<in> set (docs users)"
        by (auto simp: FindOne_def find_Some_iff split: if_splits option.splits)
      with assms have "CompareHashAndPassword bc' (hash' user) (lq_Password req)
          = CompareHashAndPassword (bcrypt h) (u_Password user) (lq_Password req)"
        by blast
      with Inr None f found show ?thesis
        by (simp add: Login_def ComparePassword_def ToResponse_password split: sum.splits)
    qed
  qed
qed

lemma list_ex_rehash:
  "list_ex (\<lambda>e. u_ID e = i) (map (\<lambda>u. u\<lparr>u_Password := hash' u\<rparr>) ds)
     = list_ex (\<lambda>e. u_ID e = i) ds"
  by (simp add: list_ex_iff)

text \<open>\<open>Register\<close>, one step at a time.\<close>

lemma Register_unbound:
  "ShouldBindJSON c = Inl err \<Longrightarrow>
     Register users h c = ((StatusBadRequest, H_error err), users)"
  unfolding Register_def by simp

lemma Register_invalid:
  "ShouldBindJSON c = Inr req \<Longrightarrow> validator_Struct h req = Some err \<Longrightarrow>
     Register users h c = ((StatusBadRequest, H_error err), users)"
  unfolding Register_def by simp

lemma Register_email_taken:
  "ShouldBindJSON c = Inr req \<Longrightarrow> validator_Struct h req = None \<Longrightarrow>
   FindOne users (by_email (rq_Email req)) = Inr existingUser \<Longrightarrow>
     Register users h c
       = ((StatusConflict, H_error ''User with this email already exists''), users)"
  unfolding Register_def by simp

lemma Register_username_taken:
  "ShouldBindJSON c = Inr req \<Longrightarrow> validator_Struct h req = None \<Longrightarrow>
   FindOne users (by_email (rq_Email req)) = Inl e1 \<Longrightarrow>
   FindOne users (by_username (rq_Username req)) = Inr existingUser \<Longrightarrow>
     Register users h c = ((StatusConflict, H_error ''Username is already taken''), users)"
  unfolding Register_def by simp

lemma Register_hash_fails:
  "ShouldBindJSON c = Inr req \<Longrightarrow> validator_Struct h req = None \<Longrightarrow>
   FindOne users (by_email (rq_Email req)) = Inl e1 \<Longrightarrow>
   FindOne users (by_username (rq_Username req)) = Inl e2 \<Longrightarrow>
   GenerateFromPassword (bcrypt h) (rq_Password req) DefaultCost = None \<Longrightarrow>
     Register users h c = ((StatusInternalServerError, H_error ''Failed to hash password''), users)"
  unfolding Register_def by (simp add: HashPassword_def)

lemma Register_hashed:
  "ShouldBindJSON c = Inr req \<Longrightarrow> validator_Struct h req = None \<Longrightarrow>
   FindOne users (by_email (rq_Email req)) = Inl e1 \<Longrightarrow>
   FindOne users (by_username (rq_Username req)) = Inl e2 \<Longrightarrow>
   GenerateFromPassword (bcrypt h) (rq_Password req) DefaultCost = Some hashed \<Longrightarrow>
     fst (Register users h c) =
       (if unreachable users \<or> list_ex (\<lambda>e. u_ID e = NewObjectID h) (docs users)
          then (StatusInternalServerError, H_error ''Failed to create user'')
        else (case GenerateToken (jwt h) (jwtSecret h) (time_Now1 h) (time_Now2 h)
                     (NewObjectID h) 24 of
                Inl err \<Rightarrow> (StatusInternalServerError, H_error ''Failed to generate token'')
              | Inr token \<Rightarrow>
                  (StatusCreated,
                   AuthResponse token
                     \<lparr> r_ID = NewObjectID h, r_Username = rq_Username req,
                       r_Email = rq_Email req, r_FirstName = rq_FirstName req,
                       r_LastName = rq_LastName req, r_CreatedAt = time_Now h \<rparr>)))"
  unfolding Register_def
  by (simp add: HashPassword_def InsertOne_def ToResponse_def split: sum.splits)

lemma Register_hash_independent:
  assumes "\<forall>p n. (GenerateFromPassword bc' p n = None)
      = (GenerateFromPassword (bcrypt h) p n = None)"
  shows "fst (Register (users\<lparr>docs := map (\<lambda>u. u\<lparr>u_Password := hash' u\<rparr>) (docs users)\<rparr>)
                (h\<lparr>bcrypt := bc'\<rparr>) c)
       = fst (Register users h c)"
proof -
  let ?users' = "users\<lparr>docs := map (\<lambda>u. u\<lparr>u_Password := hash' u\<rparr>) (docs users)\<rparr>"
  let ?h' = "h\<lparr>bcrypt := bc'\<rparr>"
  show ?thesis
  proof (cases "ShouldBindJSON c")
    case (Inl err)
    then show ?thesis by (simp add: Register_unbound)
  next
    case bound: (Inr req)
    show ?thesis
    proof (cases "validator_Struct h req")
      case (Some err)
      then have "validator_Struct ?h' req = Some err" by simp
      with bound Some show ?thesis by (simp add: Register_invalid)
    next
      case valid: None
      then have valid': "validator_Struct ?h' req = None" by simp
      have fe: "FindOne ?users' (by_email (rq_Email req))
          = map_sum id (\<lambda>u. u\<lparr>u_Password := hash' u\<rparr>)
              (FindOne users (by_email (rq_Email req)))"
        by (rule FindOne_rehash) (simp add: by_email_def)
      have fu: "FindOne ?users' (by_username (rq_Username req))
          = map_sum id (\<lambda>u. u\<lparr>u_Password := hash' u\<rparr>)
              (FindOne users (by_username (rq_Username req)))"
        by (rule FindOne_rehash) (simp add: by_username_def)
      show ?thesis
      proof (cases "FindOne users (by_email (rq_Email req))")
        case (Inr existingUser)
        with fe have "FindOne ?users' (by_email (rq_Email req))
            = Inr (existingUser\<lparr>u_Password := hash' existingUser\<rparr>)"
          by simp
        from Register_email_taken [OF bound valid' this]
             Register_email_taken [OF bound valid Inr]
        show ?thesis by simp
      next
        case noe: (Inl e1)
        with fe have noe': "FindOne ?users' (by_email (rq_Email req)) = Inl e1" by simp
        show ?thesis
        proof (cases "FindOne users (by_username (rq_Username req))")
          case (Inr existingUser)
          with fu have "FindOne ?users' (by_username (rq_Username req))
              = Inr (existingUser\<lparr>u_Password := hash' existingUser\<rparr>)"
            by simp
          from Register_username_taken [OF bound valid' noe' this]
               Register_username_taken [OF bound valid noe Inr]
          show ?thesis by simp
        next
          case nou: (Inl e2)
          with fu have nou': "FindOne ?users' (by_username (rq_Username req)) = Inl e2" by simp
          show ?thesis
          proof (cases "GenerateFromPassword (bcrypt h) (rq_Password req) DefaultCost")
            case None
            with assms have "GenerateFromPassword (bcrypt ?h') (rq_Password req) DefaultCost = None"
              by simp
            from Register_hash_fails [OF bound valid' noe' nou' this]
                 Register_hash_fails [OF bound valid noe nou None]
            show ?thesis by simp
          next
            case (Some hashed)
            with assms obtain hashed' where
              "GenerateFromPassword (bcrypt ?h') (rq_Password req) DefaultCost = Some hashed'"
              by (cases "GenerateFromPassword bc' (rq_Password req) DefaultCost") auto
            note a = Register_hashed [OF bound valid' noe' nou' this]
            note b = Register_hashed [OF bound valid noe nou Some]
            have sel: "jwt ?h' = jwt h" "jwtSecret ?h' = jwtSecret h"
              "time_Now ?h' = time_Now h" "time_Now1 ?h' = time_Now1 h"
              "time_Now2 ?h' = time_Now2 h" "NewObjectID ?h' = NewObjectID h"
              "unreachable ?users' = unreachable users"
              "docs ?users' = map (\<lambda>u. u\<lparr>u_Password := hash' u\<rparr>) (docs users)"
              by simp_all
            show ?thesis unfolding a b sel list_ex_rehash by (rule refl)
          qed
        qed
      qed
    qed
  qed
qed

lemma Marshal_User_password: "Marshal_User (u\<lparr>u_Password := p\<rparr>) = Marshal_User u"
  by (simp add: Marshal_User_def)

lemma field_names_omitempty: "field_names (JObject (omitempty name v)) \<subseteq> {name}"
  by (simp add: omitempty_def)

lemma field_names_append:
  "field_names (JObject (xs @ ys)) = field_names (JObject xs) \<union> field_names (JObject ys)"
  by auto

lemma names_bound:
  "F = {i, u, e} \<union> A \<union> B \<union> C \<Longrightarrow> A \<subseteq> {f} \<Longrightarrow> B \<subseteq> {l} \<Longrightarrow>
     F \<subseteq> insert i (insert u (insert e (insert f (insert l C))))"
  by blast

lemma names_bound2: "F = {t, u} \<union> A \<Longrightarrow> A \<subseteq> B \<Longrightarrow> F \<subseteq> insert t (insert u B)"
  by blast

lemma field_names_UserResponse:
  "field_names (Marshal_UserResponse r)
     \<subseteq> {''id'', ''username'', ''email'', ''firstName'', ''lastName'', ''createdAt''}"
proof -
  have "field_names (Marshal_UserResponse r)
      = {''id'', ''username'', ''email''}
        \<union> field_names (JObject (omitempty ''firstName'' (r_FirstName r)))
        \<union> field_names (JObject (omitempty ''lastName'' (r_LastName r)))
        \<union> {''createdAt''}"
    unfolding Marshal_UserResponse_def field_names_append by simp
  then show ?thesis
    by (rule names_bound) (rule field_names_omitempty)+
qed

lemma field_names_AuthResponse:
  "field_names (render (AuthResponse token r))
     \<subseteq> {''token'', ''user'', ''id'', ''username'', ''email'', ''firstName'', ''lastName'',
         ''createdAt''}"
proof -
  have "field_names (render (AuthResponse token r))
      = {''token'', ''user''} \<union> field_names (Marshal_UserResponse r)"
    by simp
  then show ?thesis by (rule names_bound2) (rule field_names_UserResponse)
qed

lemma field_names_User:
  "field_names (Marshal_User u)
     \<subseteq> {''id'', ''username'', ''email'', ''firstName'', ''lastName'', ''createdAt'',
         ''updatedAt''}"
proof -
  have "field_names (Marshal_User u)
      = {''id'', ''username'', ''email''}
        \<union> field_names (JObject (omitempty ''firstName'' (u_FirstName u)))
        \<union> field_names (JObject (omitempty ''lastName'' (u_LastName u)))
        \<union> {''createdAt'', ''updatedAt''}"
    unfolding Marshal_User_def field_names_append by simp
  then show ?thesis
    by (rule names_bound) (rule field_names_omitempty)+
qed

text \<open>
  C9. The responses of \<open>Login\<close> and \<open>Register\<close> do not depend on the stored hashes: with
  every stored hash replaced and another bcrypt in place, \<open>Login\<close> answers the same as long
  as the comparisons give the same verdicts, and \<open>Register\<close> answers the same as long as
  hashing fails for the same passwords. \<open>ToResponse\<close> and the JSON form of a \<open>User\<close> do not
  depend on the password field either, and no field of the JSON of an \<open>AuthResponse\<close> or
  of a \<open>User\<close> is named otherwise than listed.
\<close>

theorem C9_hash_never_leaves:
  "((\<forall>u \<in> set (docs users). \<forall>pw.
        CompareHashAndPassword bc' (hash' u) pw
          = CompareHashAndPassword (bcrypt hl) (u_Password u) pw) \<longrightarrow>
      Login (users\<lparr>docs := map (\<lambda>u. u\<lparr>u_Password := hash' u\<rparr>) (docs users)\<rparr>)
          (hl\<lparr>bcrypt := bc'\<rparr>) cl
        = Login users hl cl)
   \<and> ((\<forall>p n. (GenerateFromPassword bc' p n = None)
                = (GenerateFromPassword (bcrypt hr) p n = None)) \<longrightarrow>
      fst (Register (users\<lparr>docs := map (\<lambda>u. u\<lparr>u_Password := hash' u\<rparr>) (docs users)\<rparr>)
             (hr\<lparr>bcrypt := bc'\<rparr>) cr)
        = fst (Register users hr cr))
   \<and> ToResponse (u\<lparr>u_Password := p\<rparr>) = ToResponse u
   \<and> Marshal_User (u\<lparr>u_Password := p\<rparr>) = Marshal_User u
   \<and> field_names (render (AuthResponse token (ToResponse u)))
       \<subseteq> {''token'', ''user'', ''id'', ''username'', ''email'', ''firstName'', ''lastName'',
           ''createdAt''}
   \<and> field_names (Marshal_User u)
       \<subseteq> {''id'', ''username'', ''email'', ''firstName'', ''lastName'', ''createdAt'',
           ''updatedAt''}"
proof (intro conjI impI)
  assume "\<forall>u \<in> set (docs users). \<forall>pw.
        CompareHashAndPassword bc' (hash' u) pw
          = CompareHashAndPassword (bcrypt hl) (u_Password u) pw"
  then show "Login (users\<lparr>docs := map (\<lambda>u. u\<lparr>u_Password := hash' u\<rparr>) (docs users)\<rparr>)
          (hl\<lparr>bcrypt := bc'\<rparr>) cl
        = Login users hl cl"
    by (rule Login_hash_independent)
next
  assume "\<forall>p n. (GenerateFromPassword bc' p n = None)
                = (GenerateFromPassword (bcrypt hr) p n = None)"
  then show "fst (Register (users\<lparr>docs := map (\<lambda>u. u\<lparr>u_Password := hash' u\<rparr>) (docs users)\<rparr>)
             (hr\<lparr>bcrypt := bc'\<rparr>) cr)
        = fst (Register users hr cr)"
    by (rule Register_hash_independent)
qed (rule ToResponse_password Marshal_User_password field_names_AuthResponse field_names_User)+

lemma login_alice:
  "Login \<lparr>docs = [alice_user], unreachable = False\<rparr> login_env
       \<lparr>Param_id = [], userId = None,
        ShouldBindJSON = Inr \<lparr>lq_Email = ''a@x.com'', lq_Password = ''secret1''\<rparr>\<rparr>
     = (StatusOK, AuthResponse ''h.c.s'' (ToResponse alice_user))"
proof -
  have f: "FindOne \<lparr>docs = [alice_user], unreachable = False\<rparr> (by_email ''a@x.com'')
      = Inr alice_user"
    by (simp add: FindOne_def by_email_def alice_user_def)
  have c: "ComparePassword example_bcrypt alice_user ''secret1''"
    by (simp add: ComparePassword_def example_bcrypt_def alice_user_def)
  have g: "GenerateToken (example_jwt ''h.c.s'' token_24h) ''secret'' 500 900 (u_ID alice_user) 24
      = Inr ''h.c.s''"
    using gen24 by (simp add: alice_user_def)
  show ?thesis
    by (simp add: Login_def login_env_def f c g)
qed

theorem C9_witness:
  "Login (\<lparr>docs = [alice_user], unreachable = False\<rparr>
            \<lparr>docs := map (\<lambda>u. u\<lparr>u_Password := ''$2b$12$secret1''\<rparr>)
                         (docs \<lparr>docs = [alice_user], unreachable = False\<rparr>)\<rparr>)
       (login_env\<lparr>bcrypt := example_bcrypt2\<rparr>)
       \<lparr>Param_id = [], userId = None,
        ShouldBindJSON = Inr \<lparr>lq_Email = ''a@x.com'', lq_Password = ''secret1''\<rparr>\<rparr>
     = Login \<lparr>docs = [alice_user], unreachable = False\<rparr> login_env
       \<lparr>Param_id = [], userId = None,
        ShouldBindJSON = Inr \<lparr>lq_Email = ''a@x.com'', lq_Password = ''secret1''\<rparr>\<rparr>
   \<and> Login \<lparr>docs = [alice_user], unreachable = False\<rparr> login_env
       \<lparr>Param_id = [], userId = None,
        ShouldBindJSON = Inr \<lparr>lq_Email = ''a@x.com'', lq_Password = ''secret1''\<rparr>\<rparr>
     = (StatusOK, AuthResponse ''h.c.s'' (ToResponse alice_user))
   \<and> fst (Register (\<lparr>docs = [alice_user], unreachable = False\<rparr>
                   \<lparr>docs := map (\<lambda>u. u\<lparr>u_Password := ''$2b$12$secret1''\<rparr>)
                                (docs \<lparr>docs = [alice_user], unreachable = False\<rparr>)\<rparr>)
            (register_env\<lparr>bcrypt := example_bcrypt2\<rparr>)
            \<lparr>Param_id = [], userId = None, ShouldBindJSON = Inr bob_request\<rparr>)
     = fst (Register \<lparr>docs = [alice_user], unreachable = False\<rparr> register_env
            \<lparr>Param_id = [], userId = None, ShouldBindJSON = Inr bob_request\<rparr>)"
proof (intro conjI)
  have h1: "\<forall>u \<in> set (docs \<lparr>docs = [alice_user], unreachable = False\<rparr>). \<forall>pw.
      CompareHashAndPassword example_bcrypt2 ((\<lambda>u. ''$2b$12$secret1'') u) pw
        = CompareHashAndPassword (bcrypt login_env) (u_Password u) pw"
    by (simp add: example_bcrypt2_def example_bcrypt_def login_env_def alice_user_def)
  show "Login (\<lparr>docs = [alice_user], unreachable = False\<rparr>
            \<lparr>docs := map (\<lambda>u. u\<lparr>u_Password := ''$2b$12$secret1''\<rparr>)
                         (docs \<lparr>docs = [alice_user], unreachable = False\<rparr>)\<rparr>)
       (login_env\<lparr>bcrypt := example_bcrypt2\<rparr>)
       \<lparr>Param_id = [], userId = None,
        ShouldBindJSON = Inr \<lparr>lq_Email = ''a@x.com'', lq_Password = ''secret1''\<rparr>\<rparr>
     = Login \<lparr>docs = [alice_user], unreachable = False\<rparr> login_env
       \<lparr>Param_id = [], userId = None,
        ShouldBindJSON = Inr \<lparr>lq_Email = ''a@x.com'', lq_Password = ''secret1''\<rparr>\<rparr>"
    by (rule C9_hash_never_leaves [where hash' = "\<lambda>u. ''$2b$12$secret1''",
          THEN conjunct1, THEN mp, OF h1])
  show "Login \<lparr>docs = [alice_user], unreachable = False\<rparr> login_env
       \<lparr>Param_id = [], userId = None,
        ShouldBindJSON = Inr \<lparr>lq_Email = ''a@x.com'', lq_Password = ''secret1''\<rparr>\<rparr>
     = (StatusOK, AuthResponse ''h.c.s'' (ToResponse alice_user))"
    by (rule login_alice)
  have h2: "\<forall>p n. (GenerateFromPassword example_bcrypt2 p n = None)
      = (GenerateFromPassword (bcrypt register_env) p n = None)"
    by (simp add: example_bcrypt2_def example_bcrypt_def register_env_def)
  show "fst (Register (\<lparr>docs = [alice_user], unreachable = False\<rparr>
                   \<lparr>docs := map (\<lambda>u. u\<lparr>u_Password := ''$2b$12$secret1''\<rparr>)
                                (docs \<lparr>docs = [alice_user], unreachable = False\<rparr>)\<rparr>)
            (register_env\<lparr>bcrypt := example_bcrypt2\<rparr>)
            \<lparr>Param_id = [], userId = None, ShouldBindJSON = Inr bob_request\<rparr>)
     = fst (Register \<lparr>docs = [alice_user], unreachable = False\<rparr> register_env
            \<lparr>Param_id = [], userId = None, ShouldBindJSON = Inr bob_request\<rparr>)"
    by (rule C9_hash_never_leaves [where hash' = "\<lambda>u. ''$2b$12$secret1''",
          THEN conjunct2, THEN conjunct1, THEN mp, OF h2])
qed

end
